theory Spec2Isabelle
  imports Complex_Main "HOL-Library.AList"
begin

section \<open>Core data structures (core.py)\<close>

text \<open>
  Python integers are modelled as \<open>int\<close>, Python floats and tensor entries as \<open>real\<close>,
  one-dimensional tensors as lists. Exceptions are values of the type \<open>error\<close>.
\<close>

datatype error = IndexError | KeyError | RuntimeError | ValueError

datatype Stream = BODY | DESIGN

datatype ChartSystem = SIDEREAL | TROPICAL | DRACONIC

record Placement =
  planet :: string
  stream :: Stream
  gate :: int
  line :: int
  degree :: "real option"

text \<open>The static channel table, in the order of the source, duplicates included.\<close>

definition CHANNELS :: "(int \<times> int \<times> string) list" where
  "CHANNELS = [
   (64, 47, ''Abstract/Reason''), (61, 24, ''Awareness/The Thinker''), (63, 4, ''Logic/Formulas''),
   (47, 64, ''Abstract/Reason''), (24, 61, ''Awareness/The Thinker''), (4, 63, ''Logic/Formulas''),
   (17, 62, ''Acceptance/Organization''), (43, 23, ''Insight/Structuring''), (11, 56, ''Curiosity/Stimulation''),
   (31, 7, ''Alpha/The Sphinx''), (8, 1, ''Inspiration/The Creative''), (33, 13, ''Prodigal/The Witness''),
   (20, 10, ''Awakening/Commitment''), (16, 48, ''Wavelength/The Talent''), (62, 17, ''Acceptance/Organization''),
   (23, 43, ''Insight/Structuring''), (56, 11, ''Curiosity/Stimulation''), (7, 31, ''Alpha/The Sphinx''),
   (1, 8, ''Inspiration/The Creative''), (13, 33, ''Prodigal/The Witness''), (10, 20, ''Awakening/Commitment''),
   (25, 51, ''Initiation/The Shaman''), (46, 29, ''Discovery/Succeeding''), (2, 14, ''The Beat/Keeper of Keys''),
   (15, 5, ''Rhythm/Flow''), (10, 34, ''Exploration/Power''), (25, 51, ''Initiation''),
   (7, 31, ''Alpha''), (1, 8, ''Inspiration''), (13, 33, ''Prodigal''),
   (10, 20, ''Awakening''), (25, 51, ''Initiation''), (46, 29, ''Discovery''),
   (10, 34, ''Exploration''), (5, 15, ''Rhythm/Flow''), (14, 2, ''The Beat/Keeper''),
   (29, 46, ''Discovery/Succeeding''), (34, 10, ''Exploration/Power''), (27, 50, ''Preservation/Cauldron''),
   (59, 6, ''Intimacy/Mating''), (9, 52, ''Concentration/Focus''), (3, 60, ''Mutation/Energy''),
   (42, 53, ''Maturation/Cycles''), (48, 16, ''Wavelength/The Talent''), (57, 10, ''Intuitive Insight/Perfected Form''),
   (44, 26, ''Surrender/Transmitter''), (50, 27, ''Preservation/Cauldron''), (32, 54, ''Transformation/Ambition''),
   (28, 38, ''The Game Player/Struggle''), (18, 58, ''Correction/Judgment''), (41, 30, ''Recognition/Format''),
   (39, 55, ''Emoting/Spirit''), (22, 12, ''Openness/Grace''), (37, 40, ''Bargain/Community''),
   (36, 35, ''Transitoriness/Crisis''), (6, 59, ''Intimacy/Mating''), (21, 45, ''Money/The Gatherer''),
   (26, 44, ''Surrender/Transmitter''), (40, 37, ''Bargain/Community''), (51, 25, ''Initiation/Shaman''),
   (21, 45, ''Money''), (26, 44, ''Surrender''), (51, 25, ''Initiation'')
  ]"

text \<open>
  The loop of \<open>get_channel_edges\<close>: \<open>edges\<close> is the list built so far, \<open>seen\<close> the
  set of pairs recorded (only the orientation met first is recorded).
\<close>

fun channel_loop ::
  "(int \<times> int \<times> string) list \<Rightarrow> (int \<times> int) list \<Rightarrow> (int \<times> int) list \<Rightarrow> (int \<times> int) list"
where
  "channel_loop [] edges seen = edges"
| "channel_loop ((g1, g2, nm) # cs) edges seen =
     (if (g1, g2) \<notin> set seen \<and> (g2, g1) \<notin> set seen
      then channel_loop cs (edges @ [(g1, g2), (g2, g1)]) ((g1, g2) # seen)
      else channel_loop cs edges seen)"

definition get_channel_edges_of :: "(int \<times> int \<times> string) list \<Rightarrow> (int \<times> int) list" where
  "get_channel_edges_of chans = channel_loop chans [] []"

definition get_channel_edges :: "(int \<times> int) list" where
  "get_channel_edges = get_channel_edges_of CHANNELS"


text \<open>
  A Python \<open>set\<close> of gates is modelled by a list of its elements without repetition.
  The order of that list carries no meaning: the order in which the interpreter iterates
  a set is not fixed by the language, and it is a parameter of the model (\<open>set_iter\<close>
  below), applied where the code iterates the set.
\<close>

definition CENTERS :: "(string \<times> int list) list" where
  "CENTERS = [
     (''Head'', [64, 61, 63]),
     (''Ajna'', [47, 24, 4, 17, 11, 43]),
     (''Throat'', [62, 23, 56, 35, 12, 45, 33, 8, 31, 20, 16]),
     (''G'', [7, 1, 13, 10, 15, 2, 46, 25]),
     (''Ego'', [21, 51, 26, 40]),
     (''Spleen'', [57, 44, 50, 32, 28, 18, 48]),
     (''Solar'', [55, 49, 37, 22, 30, 36, 6]),
     (''Sacral'', [5, 14, 29, 59, 9, 3, 42, 27, 34]),
     (''Root'', [52, 19, 39, 41, 38, 54, 53, 60, 58])
   ]"

definition AWARENESS_SYSTEMS :: "(string \<times> int list) list" where
  "AWARENESS_SYSTEMS = [
     (''spleen'', [57, 44, 50, 32, 28, 18]),
     (''ajna'', [47, 24, 4, 17, 11, 43]),
     (''solar'', [55, 49, 37, 22, 30, 36, 6])
   ]"

record field_config =
  chart :: ChartSystem
  centers :: "string list"
  awareness_name :: "string option"
  modulation :: "string option"

definition CONSCIOUSNESS_FIELDS :: "(string \<times> field_config) list" where
  "CONSCIOUSNESS_FIELDS = [
     (''Mind'', \<lparr>chart = SIDEREAL, centers = [''Head'', ''Ajna''],
        awareness_name = Some ''ajna'', modulation = Some ''sun_film''\<rparr>),
     (''Heart'', \<lparr>chart = TROPICAL, centers = [''Ego'', ''Solar''],
        awareness_name = Some ''solar'', modulation = Some ''sun_film''\<rparr>),
     (''Body'', \<lparr>chart = DRACONIC, centers = [''Spleen'', ''Sacral'', ''Root''],
        awareness_name = Some ''spleen'', modulation = None\<rparr>),
     (''Soul'', \<lparr>chart = SIDEREAL, centers = [''G''],
        awareness_name = None, modulation = Some ''harmonic''\<rparr>),
     (''Spirit'', \<lparr>chart = TROPICAL, centers = [''Throat''],
        awareness_name = None, modulation = Some ''harmonic''\<rparr>),
     (''Shadow'', \<lparr>chart = DRACONIC, centers = [''Root''],
        awareness_name = Some ''spleen'', modulation = Some ''inverse''\<rparr>),
     (''Higher'', \<lparr>chart = SIDEREAL, centers = [''Head''],
        awareness_name = Some ''ajna'', modulation = Some ''transcendent''\<rparr>),
     (''Lower'', \<lparr>chart = TROPICAL, centers = [''Sacral'', ''Root''],
        awareness_name = Some ''spleen'', modulation = Some ''embodied''\<rparr>),
     (''Core'', \<lparr>chart = DRACONIC, centers = [''G'', ''Ego''],
        awareness_name = None, modulation = Some ''central''\<rparr>)
   ]"

text \<open>\<open>gates.update(CENTERS[center])\<close>: the elements not yet in the set are added.\<close>

definition set_update :: "int list \<Rightarrow> int list \<Rightarrow> int list" where
  "set_update gates new = gates @ remdups (filter (\<lambda>g. g \<notin> set gates) new)"

fun field_gates_loop :: "string list \<Rightarrow> int list \<Rightarrow> error + int list" where
  "field_gates_loop [] gates = Inr gates"
| "field_gates_loop (c # cs) gates =
     (case map_of CENTERS c of
        None \<Rightarrow> Inl KeyError
      | Some new \<Rightarrow> field_gates_loop cs (set_update gates new))"

definition get_field_gates :: "string \<Rightarrow> error + int list" where
  "get_field_gates field_name =
     (case map_of CONSCIOUSNESS_FIELDS field_name of
        None \<Rightarrow> Inl KeyError
      | Some cfg \<Rightarrow> field_gates_loop (centers cfg) [])"


section \<open>Feature encoding (features.py)\<close>

text \<open>
  Indexing a tensor of size \<open>n\<close> with a Python integer: a negative index counts from
  the end, an index outside \<open>-n \<dots> n-1\<close> raises \<open>IndexError\<close>.
\<close>

definition tensor_index :: "nat \<Rightarrow> int \<Rightarrow> error + nat" where
  "tensor_index n i =
     (if 0 \<le> i \<and> i < int n then Inr (nat i)
      else if - int n \<le> i \<and> i < 0 then Inr (nat (i + int n))
      else Inl IndexError)"

definition PLANETS :: "string list" where
  "PLANETS = [''Sun'', ''Earth'', ''Moon'', ''Mercury'', ''Venus'', ''Mars'',
              ''Jupiter'', ''Saturn'', ''Uranus'', ''Neptune'', ''Pluto'',
              ''North Node'', ''South Node'']"

definition num_planets :: nat where
  "num_planets = length PLANETS"

definition planet_to_idx :: "string \<Rightarrow> nat option" where
  "planet_to_idx = map_of (map (\<lambda>(i, p). (p, i)) (enumerate 0 PLANETS))"

text \<open>
  The loop of \<open>_encode_gate_placements\<close> over the placements of one gate: the presence
  vector and the line counts are both updated under the test that the planet is known.
\<close>

fun encode_gate_loop ::
  "Placement list \<Rightarrow> real list \<Rightarrow> real list \<Rightarrow> error + (real list \<times> real list)"
where
  "encode_gate_loop [] planet_vec line_vec = Inr (planet_vec, line_vec)"
| "encode_gate_loop (p # ps) planet_vec line_vec =
     (case planet_to_idx (planet p) of
        None \<Rightarrow> encode_gate_loop ps planet_vec line_vec
      | Some planet_idx \<Rightarrow>
          (case tensor_index 6 (line p - 1) of
             Inl e \<Rightarrow> Inl e
           | Inr j \<Rightarrow>
               encode_gate_loop ps (planet_vec[planet_idx := 1])
                 (line_vec[j := line_vec ! j + 1])))"

definition encode_gate_placements :: "nat \<Rightarrow> Placement list \<Rightarrow> error + real list" where
  "encode_gate_placements embedding_dim placements =
     (if placements = [] then Inr (replicate (embedding_dim div 2) 0)
      else
        (case encode_gate_loop placements (replicate num_planets 0) (replicate 6 0) of
           Inl e \<Rightarrow> Inl e
         | Inr (planet_vec, line_vec) \<Rightarrow>
             (let line_vec' =
                    (if sum_list line_vec > 0
                     then map (\<lambda>x. x / sum_list line_vec) line_vec else line_vec);
                  gate_features = planet_vec @ line_vec';
                  pad_size = int (embedding_dim div 2) - int (length gate_features);
                  gate_features' =
                    (if pad_size > 0 then gate_features @ replicate (nat pad_size) 0
                     else gate_features)
              in Inr (take (embedding_dim div 2) gate_features'))))"

text \<open>
  \<open>encode_placements\<close>: the placements are first sorted into two dictionaries keyed by
  the gates 1..64 (a gate outside raises \<open>KeyError\<close>), then each gate's row is the body
  features followed by the design features; a row of the wrong width cannot be stored.
\<close>

fun organize_placements ::
  "Placement list \<Rightarrow> (int \<Rightarrow> Placement list option) \<Rightarrow> (int \<Rightarrow> Placement list option) \<Rightarrow>
     error + ((int \<Rightarrow> Placement list option) \<times> (int \<Rightarrow> Placement list option))"
where
  "organize_placements [] body design = Inr (body, design)"
| "organize_placements (p # ps) body design =
     (if stream p = BODY then
        (case body (gate p) of
           None \<Rightarrow> Inl KeyError
         | Some l \<Rightarrow> organize_placements ps (body(gate p \<mapsto> l @ [p])) design)
      else
        (case design (gate p) of
           None \<Rightarrow> Inl KeyError
         | Some l \<Rightarrow> organize_placements ps body (design(gate p \<mapsto> l @ [p]))))"

definition empty_gate_dict :: "int \<Rightarrow> Placement list option" where
  "empty_gate_dict g = (if 1 \<le> g \<and> g \<le> 64 then Some [] else None)"

fun encode_rows ::
  "nat \<Rightarrow> (int \<Rightarrow> Placement list option) \<Rightarrow> (int \<Rightarrow> Placement list option) \<Rightarrow> int list \<Rightarrow>
     error + real list list"
where
  "encode_rows embedding_dim body design [] = Inr []"
| "encode_rows embedding_dim body design (g # gs) =
     (case (body g, design g) of
        (Some bl, Some dl) \<Rightarrow>
          (case encode_gate_placements embedding_dim bl of
             Inl e \<Rightarrow> Inl e
           | Inr body_feat \<Rightarrow>
               (case encode_gate_placements embedding_dim dl of
                  Inl e \<Rightarrow> Inl e
                | Inr design_feat \<Rightarrow>
                    (if length (body_feat @ design_feat) \<noteq> embedding_dim then Inl RuntimeError
                     else
                       (case encode_rows embedding_dim body design gs of
                          Inl e \<Rightarrow> Inl e
                        | Inr rows \<Rightarrow> Inr ((body_feat @ design_feat) # rows)))))
      | _ \<Rightarrow> Inl KeyError)"

definition encode_placements :: "nat \<Rightarrow> Placement list \<Rightarrow> error + real list list" where
  "encode_placements embedding_dim placements =
     (case organize_placements placements empty_gate_dict empty_gate_dict of
        Inl e \<Rightarrow> Inl e
      | Inr (body, design) \<Rightarrow> encode_rows embedding_dim body design [1..64])"

definition encode_sun_context :: "Placement \<Rightarrow> error + real list" where
  "encode_sun_context sun_placement =
     (case tensor_index 64 (gate sun_placement - 1) of
        Inl e \<Rightarrow> Inl e
      | Inr gi \<Rightarrow>
          (case tensor_index 6 (line sun_placement - 1) of
             Inl e \<Rightarrow> Inl e
           | Inr li \<Rightarrow>
               (let degree_val =
                      (case degree sun_placement of
                         None \<Rightarrow> 0
                       | Some d \<Rightarrow> if d \<noteq> 0 then d / 360 else 0)
                in Inr ((replicate 64 0)[gi := 1] @ (replicate 6 0)[li := 1]
                          @ [degree_val] @ replicate 9 0))))"

text \<open>A boolean mask over the 64 gates: \<open>mask[gate - 1] = True\<close> for each gate listed.\<close>

fun gate_mask :: "int list \<Rightarrow> bool list \<Rightarrow> error + bool list" where
  "gate_mask [] msk = Inr msk"
| "gate_mask (g # gs) msk =
     (case tensor_index 64 (g - 1) of
        Inl e \<Rightarrow> Inl e
      | Inr i \<Rightarrow> gate_mask gs (msk[i := True]))"

definition HEART_GATES :: "int list" where
  "HEART_GATES = [21, 51, 26, 40]"

definition mask_of :: "int list \<Rightarrow> bool list" where
  "mask_of gates = (case gate_mask gates (replicate 64 False) of Inl e \<Rightarrow> [] | Inr m \<Rightarrow> m)"

definition get_awareness_masks :: "(string \<times> bool list) list" where
  "get_awareness_masks =
     map (\<lambda>(name, gates). (name, mask_of gates)) AWARENESS_SYSTEMS
     @ [(''heart'', mask_of HEART_GATES),
        (''mind'', mask_of (the (map_of AWARENESS_SYSTEMS ''ajna'')))]"

definition get_edge_index :: "(int \<times> int) list" where
  "get_edge_index = map (\<lambda>(g1, g2). (g1 - 1, g2 - 1)) get_channel_edges"


section \<open>The nine-body consciousness layer (consciousness.py)\<close>

text \<open>
  Library and interpreter behaviour that the source does not fix is a parameter of the
  model: \<open>set_iter\<close> is the order in which the interpreter iterates a set of integers
  (given the elements, it returns them in iteration order), \<open>topk\<close> is \<open>torch.topk\<close> (the
  indices it returns, for a tensor and \<open>k\<close>), \<open>format_percent\<close> is the float format
  \<open>{:.1%}\<close> and \<open>str_int\<close> is \<open>str\<close> on an integer.
\<close>

record runtime =
  set_iter :: "int list \<Rightarrow> int list"
  topk :: "real list \<Rightarrow> nat \<Rightarrow> nat list"
  format_percent :: "real \<Rightarrow> string"
  str_int :: "int \<Rightarrow> string"

record ConsciousnessState =
  field_name :: string
  activation :: real
  dominant_gates :: "int list"
  awareness_type :: "string option"
  coherence :: real
  resonance :: "(string \<times> real) list"
  narrative_seed :: string

record ConsciousnessField =
  name :: string
  config :: field_config
  gates :: "int list"
  gate_indices :: "int list"
  embeddings :: "real list list"

text \<open>\<open>t[indices]\<close> on a tensor, and \<open>xs[i]\<close> on a Python list with an index from \<open>topk\<close>.\<close>

fun tensor_select :: "'a list \<Rightarrow> int list \<Rightarrow> error + 'a list" where
  "tensor_select t [] = Inr []"
| "tensor_select t (i # is) =
     (case tensor_index (length t) i of
        Inl e \<Rightarrow> Inl e
      | Inr j \<Rightarrow>
          (case tensor_select t is of
             Inl e \<Rightarrow> Inl e
           | Inr rest \<Rightarrow> Inr (t ! j # rest)))"

fun list_select :: "'a list \<Rightarrow> nat list \<Rightarrow> error + 'a list" where
  "list_select xs [] = Inr []"
| "list_select xs (i # is) =
     (if i < length xs then
        (case list_select xs is of
           Inl e \<Rightarrow> Inl e
         | Inr rest \<Rightarrow> Inr (xs ! i # rest))
      else Inl IndexError)"

text \<open>
  The constructor of a field. The field \<open>gates\<close> is the gate set in the order in which
  it is iterated, which is the order of \<open>gate_indices\<close> and of \<open>list(self.gates)\<close>.
\<close>

definition ConsciousnessField_init ::
  "runtime \<Rightarrow> string \<Rightarrow> real list list \<Rightarrow> error + ConsciousnessField"
where
  "ConsciousnessField_init rt fname node_embeddings =
     (case map_of CONSCIOUSNESS_FIELDS fname of
        None \<Rightarrow> Inl KeyError
      | Some cfg \<Rightarrow>
          (case get_field_gates fname of
             Inl e \<Rightarrow> Inl e
           | Inr collected \<Rightarrow>
               (let gs = set_iter rt collected
                in (case tensor_select node_embeddings (map (\<lambda>g. g - 1) gs) of
                      Inl e \<Rightarrow> Inl e
                    | Inr emb \<Rightarrow>
                        Inr \<lparr>name = fname, config = cfg, gates = gs,
                             gate_indices = map (\<lambda>g. g - 1) gs, embeddings = emb\<rparr>))))"

text \<open>
  \<open>mean\<close> and \<open>std\<close> of a tensor; \<open>torch.std\<close> is the sample standard deviation
  (divisor \<open>n - 1\<close>).
\<close>

definition mean :: "real list \<Rightarrow> real" where
  "mean xs = sum_list xs / real (length xs)"

definition std :: "real list \<Rightarrow> real" where
  "std xs = sqrt (sum_list (map (\<lambda>x. (x - mean xs)\<^sup>2) xs) / (real (length xs) - 1))"

definition compute_coherence :: "real list \<Rightarrow> real" where
  "compute_coherence activations =
     (if length activations < 2 then 1 else 1 / (1 + std activations))"

fun join :: "string \<Rightarrow> string list \<Rightarrow> string" where
  "join sep [] = []"
| "join sep [x] = x"
| "join sep (x # y # ys) = x @ sep @ join sep (y # ys)"

text \<open>
  The templates of the narrative seed, each split at its first two placeholders; all end
  in \<open>, coherence {}\<close>. The default template of the source has four placeholders for
  three arguments and its second one formats the gate string as a percentage, which
  raises \<open>ValueError\<close>.
\<close>

definition templates :: "(string \<times> string \<times> string) list" where
  "templates = [
     (''Mind'', ''Mental field activated at '', '', centered in gates ''),
     (''Heart'', ''Emotional resonance at '', '' through gates ''),
     (''Body'', ''Physical presence at '', '' via gates ''),
     (''Soul'', ''Soul essence vibrating at '', '' in gates ''),
     (''Spirit'', ''Spiritual expression at '', '' channeling gates ''),
     (''Shadow'', ''Shadow material at '', '' emerging through gates ''),
     (''Higher'', ''Higher consciousness at '', '' accessing gates ''),
     (''Lower'', ''Primal consciousness at '', '' rooted in gates ''),
     (''Core'', ''Core identity at '', '' anchored by gates '')
   ]"

definition generate_narrative_seed ::
  "runtime \<Rightarrow> ConsciousnessField \<Rightarrow> real \<Rightarrow> int list \<Rightarrow> real option \<Rightarrow> real \<Rightarrow> error + string"
where
  "generate_narrative_seed rt fld act gs awareness_score coh =
     (case map_of templates (name fld) of
        None \<Rightarrow> Inl ValueError
      | Some (pre, mid) \<Rightarrow>
          (let coherence_desc =
                 (if coh > 0.7 then ''high'' else if coh > 0.4 then ''moderate'' else ''low'');
               gates_str = join '', '' (map (str_int rt) gs);
               seed = pre @ format_percent rt act @ mid @ gates_str
                        @ '', coherence '' @ coherence_desc
           in (case awareness_score of
                 None \<Rightarrow> Inr seed
               | Some sc \<Rightarrow>
                   (case awareness_name (config fld) of
                      None \<Rightarrow> Inl KeyError
                    | Some an \<Rightarrow>
                        Inr (seed @ '' | '' @ an @ '' awareness: '' @ format_percent rt sc)))))"

definition collapse_to_state ::
  "runtime \<Rightarrow> ConsciousnessField \<Rightarrow> real list \<Rightarrow> (string \<times> real) list \<Rightarrow>
     error + ConsciousnessState"
where
  "collapse_to_state rt fld codon_scores awareness =
     (case tensor_select codon_scores (gate_indices fld) of
        Inl e \<Rightarrow> Inl e
      | Inr field_activations \<Rightarrow>
          (let overall_activation = mean field_activations;
               top_k = min 3 (length (gate_indices fld));
               top_idx = topk rt field_activations top_k
           in (case list_select (gates fld) top_idx of
                 Inl e \<Rightarrow> Inl e
               | Inr dominant \<Rightarrow>
                   (let awareness_ty = awareness_name (config fld);
                        awareness_score =
                          (case awareness_ty of
                             None \<Rightarrow> None
                           | Some a \<Rightarrow> if a \<noteq> [] then map_of awareness a else None);
                        coh = compute_coherence field_activations
                    in (case generate_narrative_seed rt fld overall_activation dominant
                               awareness_score coh of
                          Inl e \<Rightarrow> Inl e
                        | Inr seed \<Rightarrow>
                            Inr \<lparr>field_name = name fld,
                                 activation = overall_activation,
                                 dominant_gates = dominant,
                                 awareness_type = awareness_ty,
                                 coherence = coh,
                                 resonance = [],
                                 narrative_seed = seed\<rparr>)))))"

text \<open>
  \<open>initialize_from_quantum_state\<close> fills the dictionary of fields, one per entry of
  \<open>CONSCIOUSNESS_FIELDS\<close>; an exception leaves the fields stored so far.
\<close>

fun initialize_fields ::
  "runtime \<Rightarrow> string list \<Rightarrow> real list list \<Rightarrow> (string \<times> ConsciousnessField) list \<Rightarrow>
     (error + unit) \<times> (string \<times> ConsciousnessField) list"
where
  "initialize_fields rt [] node_embeddings flds = (Inr (), flds)"
| "initialize_fields rt (n # ns) node_embeddings flds =
     (case ConsciousnessField_init rt n node_embeddings of
        Inl e \<Rightarrow> (Inl e, flds)
      | Inr f \<Rightarrow> initialize_fields rt ns node_embeddings (AList.update n f flds))"

definition initialize_from_quantum_state ::
  "runtime \<Rightarrow> real list list \<Rightarrow> (string \<times> ConsciousnessField) list \<Rightarrow>
     (error + unit) \<times> (string \<times> ConsciousnessField) list"
where
  "initialize_from_quantum_state rt node_embeddings flds =
     initialize_fields rt (map fst CONSCIOUSNESS_FIELDS) node_embeddings flds"

text \<open>
  The resonance of two collapsed states: the Jaccard overlap of the sets of their
  dominant gates (0 when both are empty) and the similarity of their coherences.
\<close>

definition gate_overlap :: "int list \<Rightarrow> int list \<Rightarrow> real" where
  "gate_overlap dg1 dg2 =
     (if set dg1 \<noteq> {} \<or> set dg2 \<noteq> {}
      then real (card (set dg1 \<inter> set dg2)) / real (card (set dg1 \<union> set dg2))
      else 0)"

definition resonance_of :: "ConsciousnessState \<Rightarrow> ConsciousnessState \<Rightarrow> real" where
  "resonance_of state1 state2 =
     (let overlap = gate_overlap (dominant_gates state1) (dominant_gates state2);
          coherence_diff = \<bar>coherence state1 - coherence state2\<bar>;
          coherence_sim = 1 - coherence_diff
      in (overlap + coherence_sim) / 2)"

definition store_resonance :: "string \<Rightarrow> real \<Rightarrow> ConsciousnessState \<Rightarrow> ConsciousnessState" where
  "store_resonance other r st = st\<lparr>resonance := AList.update other r (resonance st)\<rparr>"

fun resonance_inner ::
  "string \<Rightarrow> string list \<Rightarrow> (string \<times> ConsciousnessState) list \<Rightarrow>
     error + (string \<times> ConsciousnessState) list"
where
  "resonance_inner name1 [] states = Inr states"
| "resonance_inner name1 (name2 # rest) states =
     (case map_of states name1 of
        None \<Rightarrow> Inl KeyError
      | Some state1 \<Rightarrow>
          (case map_of states name2 of
             None \<Rightarrow> Inl KeyError
           | Some state2 \<Rightarrow>
               (let r = resonance_of state1 state2
                in resonance_inner name1 rest
                     (AList.map_entry name2 (store_resonance name1 r)
                        (AList.map_entry name1 (store_resonance name2 r) states)))))"

fun resonance_outer ::
  "string list \<Rightarrow> (string \<times> ConsciousnessState) list \<Rightarrow>
     error + (string \<times> ConsciousnessState) list"
where
  "resonance_outer [] states = Inr states"
| "resonance_outer (name1 # rest) states =
     (case resonance_inner name1 rest states of
        Inl e \<Rightarrow> Inl e
      | Inr states' \<Rightarrow> resonance_outer rest states')"

definition compute_resonances ::
  "(string \<times> ConsciousnessState) list \<Rightarrow> error + (string \<times> ConsciousnessState) list"
where
  "compute_resonances states = resonance_outer (map fst states) states"

fun collapse_fields ::
  "runtime \<Rightarrow> (string \<times> ConsciousnessField) list \<Rightarrow> real list \<Rightarrow> (string \<times> real) list \<Rightarrow>
     (string \<times> ConsciousnessState) list \<Rightarrow> error + (string \<times> ConsciousnessState) list"
where
  "collapse_fields rt [] codon_scores awareness states = Inr states"
| "collapse_fields rt ((fname, fld) # fs) codon_scores awareness states =
     (case collapse_to_state rt fld codon_scores awareness of
        Inl e \<Rightarrow> Inl e
      | Inr st \<Rightarrow> collapse_fields rt fs codon_scores awareness (AList.update fname st states))"

definition collapse_all_fields ::
  "runtime \<Rightarrow> (string \<times> ConsciousnessField) list \<Rightarrow> real list \<Rightarrow> (string \<times> real) list \<Rightarrow>
     error + (string \<times> ConsciousnessState) list"
where
  "collapse_all_fields rt flds codon_scores awareness =
     (case collapse_fields rt flds codon_scores awareness [] of
        Inl e \<Rightarrow> Inl e
      | Inr states \<Rightarrow> compute_resonances states)"

definition combine_seeds :: "string list \<Rightarrow> string \<Rightarrow> string" where
  "combine_seeds seeds label = label @ '': '' @ join '' | '' seeds"

definition seeds_of :: "(string \<times> ConsciousnessState) list \<Rightarrow> string list \<Rightarrow> string list" where
  "seeds_of states fs =
     concat (map (\<lambda>f. case map_of states f of None \<Rightarrow> [] | Some s \<Rightarrow> [narrative_seed s]) fs)"

definition synthesize_narrative_seeds ::
  "(string \<times> ConsciousnessState) list \<Rightarrow> (string \<times> string) list"
where
  "synthesize_narrative_seeds states =
     [(''spleen'', combine_seeds (seeds_of states [''Body'', ''Lower'', ''Shadow''])
                     ''Survival consciousness''),
      (''ajna'', combine_seeds (seeds_of states [''Mind'', ''Higher'']) ''Mental consciousness''),
      (''solar'', combine_seeds (seeds_of states [''Heart'', ''Spirit''])
                    ''Emotional consciousness''),
      (''core'', combine_seeds (seeds_of states [''Soul'', ''Core'']) ''Core identity'')]"


section \<open>The network (network.py)\<close>

text \<open>
  The learned layers (\<open>nn.Linear\<close>, \<open>SAGEConv\<close>, \<open>nn.LayerNorm\<close>) are functions on rows
  or tensors, fixed once the parameters are fixed; the activation functions, the
  residual sums, the FiLM modulation, the pooling and the dropout are written out. The
  flag \<open>training\<close> is the mode of the module (\<open>eval()\<close> clears it).
\<close>

record QuantumHDNet =
  input_proj :: "real list \<Rightarrow> real list"
  convs :: "(real list list \<Rightarrow> (int \<times> int) list \<Rightarrow> real list list) list"
  norms :: "(real list \<Rightarrow> real list) list"
  film_hidden :: "real list \<Rightarrow> real list"
  film_out :: "real list \<Rightarrow> real list"
  codon_hidden :: "real list \<Rightarrow> real list"
  codon_out :: "real list \<Rightarrow> real"
  pool_attention :: "string \<Rightarrow> real list \<Rightarrow> real"
  awareness_heads :: "string \<Rightarrow> real list \<Rightarrow> real"
  training :: bool

text \<open>
  The random number generator of the library is a state of type \<open>'g\<close>, threaded through
  every call that draws from it: \<open>randn\<close> draws \<open>n\<close> normal values, \<open>dropout_mask\<close> draws
  the keep flags of a dropout layer, \<open>create_model\<close> builds a network with freshly drawn
  parameters.
\<close>

record 'g torch_lib =
  randn :: "'g \<Rightarrow> nat \<Rightarrow> real list \<times> 'g"
  dropout_mask :: "'g \<Rightarrow> nat \<Rightarrow> bool list \<times> 'g"
  create_model :: "'g \<Rightarrow> QuantumHDNet \<times> 'g"

definition relu :: "real list \<Rightarrow> real list" where
  "relu xs = map (max 0) xs"

definition sigmoid :: "real \<Rightarrow> real" where
  "sigmoid x = 1 / (1 + exp (- x))"

definition softmax :: "real list \<Rightarrow> real list" where
  "softmax xs = map (\<lambda>x. exp x / sum_list (map exp xs)) xs"

definition add_rows :: "real list list \<Rightarrow> real list list \<Rightarrow> real list list" where
  "add_rows a b = map2 (map2 (+)) a b"

text \<open>\<open>nn.Dropout(0.1)\<close>: the identity in evaluation mode, a random mask in training mode.\<close>

definition dropout :: "'g torch_lib \<Rightarrow> bool \<Rightarrow> real list \<Rightarrow> 'g \<Rightarrow> real list \<times> 'g" where
  "dropout lib train xs g =
     (if train then
        (case dropout_mask lib g (length xs) of
           (keep, g') \<Rightarrow> (map2 (\<lambda>k x. if k then x / 0.9 else 0) keep xs, g'))
      else (xs, g))"

definition SunFiLM_forward ::
  "'g torch_lib \<Rightarrow> QuantumHDNet \<Rightarrow> real list list \<Rightarrow> real list \<Rightarrow> 'g \<Rightarrow> real list list \<times> 'g"
where
  "SunFiLM_forward lib net x sun_vec g =
     (case dropout lib (training net) (relu (film_hidden net sun_vec)) g of
        (hid, g') \<Rightarrow>
          (let params = film_out net hid;
               half = (length params + 1) div 2;
               gamma = take half params;
               beta = drop half params
           in (map (\<lambda>row. map2 (+) (map2 (*) gamma row) beta) x, g')))"

fun message_passing ::
  "(real list list \<Rightarrow> (int \<times> int) list \<Rightarrow> real list list) list \<Rightarrow> (real list \<Rightarrow> real list) list \<Rightarrow>
     (int \<times> int) list \<Rightarrow> real list list \<Rightarrow> real list list"
where
  "message_passing (conv # cs) (nrm # ns) edge_idx h =
     message_passing cs ns edge_idx (add_rows (map relu (map nrm (conv h edge_idx))) h)"
| "message_passing _ _ edge_idx h = h"

definition sum_rows :: "real list list \<Rightarrow> real list" where
  "sum_rows rows = (case rows of [] \<Rightarrow> [] | r # rs \<Rightarrow> foldl (map2 (+)) r rs)"

definition AwarenessPooling_forward ::
  "(real list \<Rightarrow> real) \<Rightarrow> real list list \<Rightarrow> bool list \<Rightarrow> real list"
where
  "AwarenessPooling_forward attention node_features msk =
     (let masked_features = map snd (filter fst (zip msk node_features))
      in if masked_features = []
         then replicate (case node_features of [] \<Rightarrow> 0 | r # _ \<Rightarrow> length r) 0
         else
           (let attn_weights = softmax (map attention masked_features)
            in sum_rows (map2 (\<lambda>row w. map (\<lambda>x. x * w) row) masked_features attn_weights)))"

definition pool_names :: "string list" where
  "pool_names = [''spleen'', ''ajna'', ''solar'', ''heart'', ''mind'']"

record forward_result =
  codon_scores_out :: "real list"
  awareness_out :: "(string \<times> real) list"
  awareness_vectors_out :: "(string \<times> real list) list"
  node_embeddings_out :: "real list list"

fun pool_all ::
  "QuantumHDNet \<Rightarrow> real list list \<Rightarrow> (string \<times> bool list) list \<Rightarrow> string list \<Rightarrow>
     error + (string \<times> real list) list"
where
  "pool_all net h masks [] = Inr []"
| "pool_all net h masks (n # ns) =
     (case map_of masks n of
        None \<Rightarrow> Inl KeyError
      | Some msk \<Rightarrow>
          (case pool_all net h masks ns of
             Inl e \<Rightarrow> Inl e
           | Inr rest \<Rightarrow> Inr ((n, AwarenessPooling_forward (pool_attention net n) h msk) # rest)))"

definition forward ::
  "'g torch_lib \<Rightarrow> QuantumHDNet \<Rightarrow> real list list \<Rightarrow> (int \<times> int) list \<Rightarrow> real list \<Rightarrow>
     (string \<times> bool list) list \<Rightarrow> 'g \<Rightarrow> (error + forward_result) \<times> 'g"
where
  "forward lib net x edge_idx sun_context masks g =
     (let h0 = map (\<lambda>row. relu (input_proj net row)) x;
          h = message_passing (convs net) (norms net) edge_idx h0
      in (case SunFiLM_forward lib net h sun_context g of
            (h_observed, g') \<Rightarrow>
              (let codon_logits = map (\<lambda>row. codon_out net (relu (codon_hidden net row))) h_observed;
                   codon_scores = map sigmoid codon_logits
               in (case pool_all net h_observed masks pool_names of
                     Inl e \<Rightarrow> (Inl e, g')
                   | Inr vecs \<Rightarrow>
                       (Inr \<lparr>codon_scores_out = codon_scores,
                             awareness_out =
                               map (\<lambda>(n, v). (n, sigmoid (awareness_heads net n v))) vecs,
                             awareness_vectors_out = map (\<lambda>(n, v). (n @ ''_vec'', v)) vecs,
                             node_embeddings_out = h_observed\<rparr>, g')))))"


section \<open>The engine (engine.py, features.py)\<close>

record QuantumFieldEncoder =
  embedding_dim :: nat
  planet_embedding :: "real list"
  line_embedding :: "real list"

text \<open>The constructor of the encoder draws the initial weights of its two embeddings.\<close>

definition QuantumFieldEncoder_init :: "'g torch_lib \<Rightarrow> nat \<Rightarrow> 'g \<Rightarrow> QuantumFieldEncoder \<times> 'g" where
  "QuantumFieldEncoder_init lib d g =
     (case randn lib g (num_planets * (d div 4)) of
        (pw, g1) \<Rightarrow>
          (case randn lib g1 (6 * (d div 4)) of
             (lw, g2) \<Rightarrow>
               (\<lparr>embedding_dim = d, planet_embedding = pw, line_embedding = lw\<rparr>, g2)))"

definition create_intention_perturbation ::
  "'g torch_lib \<Rightarrow> string \<Rightarrow> Placement list \<Rightarrow> 'g \<Rightarrow> (error + real list) \<times> 'g"
where
  "create_intention_perturbation lib question base_placements g =
     (case randn lib g 64 of
        (noise, g1) \<Rightarrow>
          (let perturbation = map (\<lambda>x. x * 0.1) noise
           in (case QuantumFieldEncoder_init lib 64 g1 of
                 (encoder, g2) \<Rightarrow>
                   (case encode_placements (embedding_dim encoder) base_placements of
                      Inl e \<Rightarrow> (Inl e, g2)
                    | Inr base_features \<Rightarrow>
                        (let activation_boost =
                               map (\<lambda>row. (if sum_list row > 0 then 1 else 0) * 0.3) base_features
                         in (Inr (map2 (+) perturbation activation_boost), g2))))))"

record VirtualConsciousnessResponse =
  question :: string
  codon_activations :: "(int \<times> real) list"
  awareness_scores :: "(string \<times> real) list"
  field_states :: "(string \<times> ConsciousnessState) list"
  narrative_seeds :: "(string \<times> string) list"
  coherence_level :: real
  observer_context :: "int option \<times> int option"

record VirtualConsciousnessEngine =
  birth_placements :: "Placement list"
  encoder :: QuantumFieldEncoder
  quantum_net :: QuantumHDNet
  body_sun :: "Placement option"
  awareness_masks :: "(string \<times> bool list) list"
  edge_index :: "(int \<times> int) list"
  nine_body :: "(string \<times> ConsciousnessField) list"
  consciousness_initialized :: bool

definition find_body_sun :: "Placement list \<Rightarrow> Placement option" where
  "find_body_sun placements = find (\<lambda>p. planet p = ''Sun'' \<and> stream p = BODY) placements"

text \<open>
  The constructor: the encoder and the network are created (drawing their initial
  parameters), pretrained parameters replace the drawn ones when given, and the network
  is put in evaluation mode.
\<close>

definition VirtualConsciousnessEngine_init ::
  "'g torch_lib \<Rightarrow> Placement list \<Rightarrow> QuantumHDNet option \<Rightarrow> 'g \<Rightarrow> VirtualConsciousnessEngine \<times> 'g"
where
  "VirtualConsciousnessEngine_init lib placements pretrained g =
     (case QuantumFieldEncoder_init lib 64 g of
        (enc, g1) \<Rightarrow>
          (case create_model lib g1 of
             (net, g2) \<Rightarrow>
               (\<lparr>birth_placements = placements,
                 encoder = enc,
                 quantum_net = (case pretrained of None \<Rightarrow> net | Some p \<Rightarrow> p)\<lparr>training := False\<rparr>,
                 body_sun = find_body_sun placements,
                 awareness_masks = get_awareness_masks,
                 edge_index = get_edge_index,
                 nine_body = [],
                 consciousness_initialized = False\<rparr>, g2)))"

text \<open>
  Step 3 of \<open>query\<close>: the observer context is the override's Sun when the observer state
  holds one, else the body Sun of the chart, else the zero vector of width 80.
\<close>

definition select_sun_context ::
  "VirtualConsciousnessEngine \<Rightarrow> (string \<times> Placement) list option \<Rightarrow> error + real list"
where
  "select_sun_context eng observer_state =
     (case (case observer_state of
              None \<Rightarrow> None
            | Some d \<Rightarrow> if d \<noteq> [] then map_of d ''sun_placement'' else None) of
        Some sp \<Rightarrow> encode_sun_context sp
      | None \<Rightarrow>
          (case body_sun eng of
             Some bs \<Rightarrow> encode_sun_context bs
           | None \<Rightarrow> Inr (replicate 80 0)))"

definition compute_system_coherence :: "(string \<times> ConsciousnessState) list \<Rightarrow> real" where
  "compute_system_coherence states =
     (if states = [] then 0
      else
        (let coherences = map (\<lambda>(n, s). coherence s) states;
             avg_coherence = sum_list coherences / real (length coherences);
             all_resonances = concat (map (\<lambda>(n, s). map snd (resonance s)) states);
             avg_resonance =
               (if all_resonances \<noteq> [] then sum_list all_resonances / real (length all_resonances)
                else 0)
         in (avg_coherence + avg_resonance) / 2))"

text \<open>Steps 4 to 9 of \<open>query\<close>, from the node features and the observer context on.\<close>

definition query_forward ::
  "'g torch_lib \<Rightarrow> runtime \<Rightarrow> VirtualConsciousnessEngine \<Rightarrow> string \<Rightarrow> real list list \<Rightarrow> real list \<Rightarrow>
     'g \<Rightarrow> (error + VirtualConsciousnessResponse) \<times> VirtualConsciousnessEngine \<times> 'g"
where
  "query_forward lib rt eng q node_features sun_context g =
     (case forward lib (quantum_net eng) node_features (edge_index eng) sun_context
             (awareness_masks eng) g of
        (Inl e, g') \<Rightarrow> (Inl e, eng, g')
      | (Inr out, g') \<Rightarrow>
          (case (if \<not> consciousness_initialized eng
                 then (case initialize_from_quantum_state rt (node_embeddings_out out) (nine_body eng) of
                         (Inl e, flds) \<Rightarrow> (Inl e, eng\<lparr>nine_body := flds\<rparr>)
                       | (Inr u, flds) \<Rightarrow>
                           (Inr (), eng\<lparr>nine_body := flds, consciousness_initialized := True\<rparr>))
                 else (Inr (), eng)) of
             (Inl e, eng') \<Rightarrow> (Inl e, eng', g')
           | (Inr u, eng') \<Rightarrow>
               (case collapse_all_fields rt (nine_body eng') (codon_scores_out out)
                       (awareness_out out) of
                  Inl e \<Rightarrow> (Inl e, eng', g')
                | Inr states \<Rightarrow>
                    (Inr \<lparr>question = q,
                          codon_activations = map (\<lambda>(i, sc). (int i + 1, sc))
                                                (enumerate 0 (codon_scores_out out)),
                          awareness_scores = awareness_out out,
                          field_states = states,
                          narrative_seeds = synthesize_narrative_seeds states,
                          coherence_level = compute_system_coherence states,
                          observer_context =
                            (map_option gate (body_sun eng'), map_option line (body_sun eng'))\<rparr>,
                     eng', g'))))"

definition query ::
  "'g torch_lib \<Rightarrow> runtime \<Rightarrow> VirtualConsciousnessEngine \<Rightarrow> string \<Rightarrow>
     (string \<times> Placement) list option \<Rightarrow> bool \<Rightarrow> 'g \<Rightarrow>
     (error + VirtualConsciousnessResponse) \<times> VirtualConsciousnessEngine \<times> 'g"
where
  "query lib rt eng q observer_state use_intention_perturbation g =
     (case encode_placements (embedding_dim (encoder eng)) (birth_placements eng) of
        Inl e \<Rightarrow> (Inl e, eng, g)
      | Inr node_features \<Rightarrow>
          (case (if use_intention_perturbation
                 then (case create_intention_perturbation lib q (birth_placements eng) g of
                         (Inl e, g1) \<Rightarrow> (Inl e, g1)
                       | (Inr perturbation, g1) \<Rightarrow>
                           (Inr (map2 (\<lambda>row p. map (\<lambda>x. x + p * 0.1) row)
                                   node_features perturbation), g1))
                 else (Inr node_features, g)) of
             (Inl e, g1) \<Rightarrow> (Inl e, eng, g1)
           | (Inr node_features', g1) \<Rightarrow>
               (case select_sun_context eng observer_state of
                  Inl e \<Rightarrow> (Inl e, eng, g1)
                | Inr sun_context \<Rightarrow> query_forward lib rt eng q node_features' sun_context g1)))"


section \<open>The adjustable consciousness (adjustable.py)\<close>

record ConsciousnessConfiguration =
  primary_chart_system :: ChartSystem
  allow_transits :: bool
  transit_weight :: real
  allow_progressions :: bool
  progression_weight :: real
  awareness_sensitivity :: "(string \<times> real) list"
  field_emphasis :: "(string \<times> real) list"
  coherence_threshold :: real

text \<open>The configuration with every argument at its default, after \<open>__post_init__\<close>.\<close>

definition default_configuration :: ConsciousnessConfiguration where
  "default_configuration =
     \<lparr>primary_chart_system = SIDEREAL, allow_transits = True, transit_weight = 0.3,
      allow_progressions = True, progression_weight = 0.2,
      awareness_sensitivity = [(''spleen'', 1), (''ajna'', 1), (''solar'', 1)],
      field_emphasis = [(''Mind'', 1), (''Heart'', 1), (''Body'', 1), (''Soul'', 1),
                        (''Spirit'', 1), (''Shadow'', 1), (''Higher'', 1), (''Lower'', 1),
                        (''Core'', 1)],
      coherence_threshold = 0.5\<rparr>"

text \<open>What \<open>_export_current_config\<close> returns, kept with each entry of the history.\<close>

record exported_config =
  x_chart_system :: ChartSystem
  x_awareness_sensitivity :: "(string \<times> real) list"
  x_field_emphasis :: "(string \<times> real) list"
  x_transit_weight :: real
  x_has_transits :: bool
  x_has_progressions :: bool

text \<open>
  The object state. The field \<open>config\<close> of the source is \<open>configuration\<close> here. The base
  engine, the birth time and the birth location are set by the constructor and not used
  by the methods modelled.
\<close>

record AdjustableConsciousness =
  natal_placements :: "Placement list"
  configuration :: ConsciousnessConfiguration
  base_engine :: VirtualConsciousnessEngine
  current_transits :: "Placement list option"
  current_progressions :: "Placement list option"
  query_history :: "(string \<times> VirtualConsciousnessResponse \<times> exported_config) list"

definition build_composite_placements :: "AdjustableConsciousness \<Rightarrow> bool \<Rightarrow> bool \<Rightarrow> Placement list" where
  "build_composite_placements ac use_transits use_progressions =
     (let composite = natal_placements ac;
          composite1 =
            (case current_transits ac of
               Some ts \<Rightarrow> if use_transits \<and> ts \<noteq> [] then composite @ ts else composite
             | None \<Rightarrow> composite);
          composite2 =
            (case current_progressions ac of
               Some ps \<Rightarrow> if use_progressions \<and> ps \<noteq> [] then composite1 @ ps else composite1
             | None \<Rightarrow> composite1)
      in composite2)"

text \<open>
  \<open>_apply_awareness_adjustments\<close>: a score whose system has a configured sensitivity is
  multiplied by it and clamped with \<open>min(1.0, max(0.0, ...))\<close>; the other scores are kept.
\<close>

definition adjust_score :: "(string \<times> real) list \<Rightarrow> string \<Rightarrow> real \<Rightarrow> real" where
  "adjust_score sens system score =
     (case map_of sens system of
        Some sensitivity \<Rightarrow> min 1 (max 0 (score * sensitivity))
      | None \<Rightarrow> score)"

fun adjust_scores_loop ::
  "(string \<times> real) list \<Rightarrow> (string \<times> real) list \<Rightarrow> (string \<times> real) list \<Rightarrow> (string \<times> real) list"
where
  "adjust_scores_loop sens [] adjusted_scores = adjusted_scores"
| "adjust_scores_loop sens ((system, score) # rest) adjusted_scores =
     adjust_scores_loop sens rest
       (AList.update system (adjust_score sens system score) adjusted_scores)"

definition apply_awareness_adjustments ::
  "AdjustableConsciousness \<Rightarrow> VirtualConsciousnessResponse \<Rightarrow> VirtualConsciousnessResponse"
where
  "apply_awareness_adjustments ac response =
     response\<lparr>awareness_scores :=
       adjust_scores_loop (awareness_sensitivity (configuration ac)) (awareness_scores response) []\<rparr>"

definition apply_field_adjustments ::
  "AdjustableConsciousness \<Rightarrow> VirtualConsciousnessResponse \<Rightarrow> VirtualConsciousnessResponse"
where
  "apply_field_adjustments ac response =
     response\<lparr>field_states :=
       map (\<lambda>(fname, st).
              (case map_of (field_emphasis (configuration ac)) fname of
                 Some emphasis \<Rightarrow> (fname, st\<lparr>activation := min 1 (activation st * emphasis)\<rparr>)
               | None \<Rightarrow> (fname, st)))
           (field_states response)\<rparr>"

definition export_current_config :: "AdjustableConsciousness \<Rightarrow> exported_config" where
  "export_current_config ac =
     \<lparr>x_chart_system = primary_chart_system (configuration ac),
      x_awareness_sensitivity = awareness_sensitivity (configuration ac),
      x_field_emphasis = field_emphasis (configuration ac),
      x_transit_weight = transit_weight (configuration ac),
      x_has_transits = (current_transits ac \<noteq> None),
      x_has_progressions = (current_progressions ac \<noteq> None)\<rparr>"

text \<open>
  What \<open>AdjustableConsciousness.query\<close> does with the response of the temporary engine:
  the two adjustments, then the entry in the history. (The warning printed below the
  coherence threshold is output only.)
\<close>

definition finish_query ::
  "AdjustableConsciousness \<Rightarrow> string \<Rightarrow>
     (error + VirtualConsciousnessResponse) \<times> VirtualConsciousnessEngine \<times> 'g \<Rightarrow>
     (error + VirtualConsciousnessResponse) \<times> AdjustableConsciousness \<times> 'g"
where
  "finish_query ac q r =
     (case r of
        (Inl e, temp_engine, g') \<Rightarrow> (Inl e, ac, g')
      | (Inr response, temp_engine, g') \<Rightarrow>
          (let response1 = apply_awareness_adjustments ac response;
               response2 = apply_field_adjustments ac response1
           in (Inr response2,
               ac\<lparr>query_history := query_history ac @ [(q, response2, export_current_config ac)]\<rparr>,
               g')))"

definition adjustable_query ::
  "'g torch_lib \<Rightarrow> runtime \<Rightarrow> AdjustableConsciousness \<Rightarrow> string \<Rightarrow> bool \<Rightarrow> bool \<Rightarrow> real \<Rightarrow> 'g \<Rightarrow>
     (error + VirtualConsciousnessResponse) \<times> AdjustableConsciousness \<times> 'g"
where
  "adjustable_query lib rt ac q use_transits use_progressions intention_strength g =
     (let composite_placements =
            build_composite_placements ac
              (use_transits \<and> current_transits ac \<noteq> None)
              (use_progressions \<and> current_progressions ac \<noteq> None)
      in (case VirtualConsciousnessEngine_init lib composite_placements None g of
            (temp_engine, g1) \<Rightarrow>
              finish_query ac q
                (query lib rt temp_engine q None (intention_strength > 0) g1)))"

text \<open>
  \<open>compare_configurations\<close>: the loop sets the configuration and queries with the
  default arguments; an exception leaves the loop with the configuration it had set. The
  original configuration is put back after the loop.
\<close>

fun compare_loop ::
  "'g torch_lib \<Rightarrow> runtime \<Rightarrow> string \<Rightarrow> (nat \<times> ConsciousnessConfiguration) list \<Rightarrow>
     AdjustableConsciousness \<Rightarrow> (string \<times> VirtualConsciousnessResponse) list \<Rightarrow> 'g \<Rightarrow>
     (error + (string \<times> VirtualConsciousnessResponse) list) \<times> AdjustableConsciousness \<times> 'g"
where
  "compare_loop lib rt q [] ac results g = (Inr results, ac, g)"
| "compare_loop lib rt q ((i, cfg) # rest) ac results g =
     (case adjustable_query lib rt (ac\<lparr>configuration := cfg\<rparr>) q True True 1 g of
        (Inl e, ac', g') \<Rightarrow> (Inl e, ac', g')
      | (Inr response, ac', g') \<Rightarrow>
          compare_loop lib rt q rest ac'
            (AList.update (''config_'' @ str_int rt (int i)) response results) g')"

definition compare_configurations ::
  "'g torch_lib \<Rightarrow> runtime \<Rightarrow> AdjustableConsciousness \<Rightarrow> string \<Rightarrow> ConsciousnessConfiguration list \<Rightarrow>
     'g \<Rightarrow> (error + (string \<times> VirtualConsciousnessResponse) list) \<times> AdjustableConsciousness \<times> 'g"
where
  "compare_configurations lib rt ac q configs g =
     (let original_config = configuration ac
      in (case compare_loop lib rt q (enumerate 0 configs) ac [] g of
            (Inl e, ac', g') \<Rightarrow> (Inl e, ac', g')
          | (Inr results, ac', g') \<Rightarrow>
              (Inr results, ac'\<lparr>configuration := original_config\<rparr>, g')))"


section \<open>Reference definitions and example inputs\<close>

text \<open>The line histogram is the part of a gate's feature vector after the presence flags.\<close>

definition line_sub_vector :: "real list \<Rightarrow> real list" where
  "line_sub_vector v = take 6 (drop num_planets v)"

text \<open>
  The line histogram in the words of the specification: the count of the placements
  landing on each line 1..6, divided by the total count at the gate, whatever their
  planet name. It is compared with the encoder's output below.
\<close>

definition line_histogram_spec :: "Placement list \<Rightarrow> real list" where
  "line_histogram_spec ps =
     (let counts = map (\<lambda>l. real (length (filter (\<lambda>p. line p = l) ps))) [1, 2, 3, 4, 5, 6]
      in if sum_list counts > 0 then map (\<lambda>c. c / sum_list counts) counts else counts)"

definition sun11 :: Placement where
  "sun11 = \<lparr>planet = ''Sun'', stream = BODY, gate = 1, line = 1, degree = None\<rparr>"

definition chiron13 :: Placement where
  "chiron13 = \<lparr>planet = ''Chiron'', stream = BODY, gate = 1, line = 3, degree = None\<rparr>"


text \<open>
  A field is well formed for a score tensor of \<open>n\<close> entries when its gates are distinct
  gate numbers in \<open>1..n\<close> and its indices are the gates minus one, as the constructor
  builds them. The order of the gate list is left free.
\<close>

definition wf_field :: "ConsciousnessField \<Rightarrow> nat \<Rightarrow> bool" where
  "wf_field fld n \<longleftrightarrow>
     distinct (gates fld) \<and> gate_indices fld = map (\<lambda>g. g - 1) (gates fld) \<and>
     (\<forall>g \<in> set (gates fld). 1 \<le> g \<and> g \<le> int n)"

text \<open>
  What \<open>torch.topk\<close> documents of its result: \<open>k\<close> distinct positions of the tensor,
  in descending order of their values, no position left out holding a larger value. The
  order among equal values is not part of it.
\<close>

definition is_topk :: "real list \<Rightarrow> nat \<Rightarrow> nat list \<Rightarrow> bool" where
  "is_topk xs k idx \<longleftrightarrow>
     length idx = k \<and> distinct idx \<and> (\<forall>i \<in> set idx. i < length xs) \<and>
     sorted_wrt (\<lambda>i j. xs ! j \<le> xs ! i) idx \<and>
     (\<forall>j \<in> set [0..<length xs]. j \<notin> set idx \<longrightarrow> (\<forall>i \<in> set idx. xs ! j \<le> xs ! i))"

definition gate_score :: "real list \<Rightarrow> int \<Rightarrow> real" where
  "gate_score codon_scores g = codon_scores ! nat (g - 1)"

text \<open>The dominant gates \<open>dmn\<close> are a top-3 selection by score among the gates \<open>gs\<close>.\<close>

definition is_top_gates :: "real list \<Rightarrow> int list \<Rightarrow> int list \<Rightarrow> bool" where
  "is_top_gates codon_scores gs dmn \<longleftrightarrow>
     length dmn = min 3 (length gs) \<and> distinct dmn \<and> set dmn \<subseteq> set gs \<and>
     sorted_wrt (\<lambda>g h. gate_score codon_scores h \<le> gate_score codon_scores g) dmn \<and>
     (\<forall>g \<in> set gs. g \<notin> set dmn \<longrightarrow>
        (\<forall>d \<in> set dmn. gate_score codon_scores g \<le> gate_score codon_scores d))"

text \<open>
  The tie-break in the words of the specification: of two gates with equal scores, the
  lower-numbered one is ranked first.
\<close>

definition ties_lowest_first :: "real list \<Rightarrow> int list \<Rightarrow> bool" where
  "ties_lowest_first codon_scores dmn \<longleftrightarrow>
     sorted_wrt (\<lambda>g h. gate_score codon_scores g = gate_score codon_scores h \<longrightarrow> g < h) dmn"

text \<open>
  The order in which CPython 3 iterates the gate set of each of the nine fields, in the
  order of \<open>CONSCIOUSNESS_FIELDS\<close> (its hash table places a small integer by its low
  bits). \<open>cpython_iter\<close> returns the listed order of a set it knows and the given order
  of any other.
\<close>

definition cpython_orders :: "int list list" where
  "cpython_orders = [
     [64, 4, 11, 43, 47, 17, 24, 61, 63],
     [36, 37, 6, 40, 49, 51, 21, 22, 55, 26, 30],
     [3, 5, 9, 14, 18, 19, 27, 28, 29, 32, 34, 38, 39, 41, 42, 44, 48, 50, 52, 53, 54, 57,
      58, 59, 60],
     [1, 2, 7, 10, 13, 46, 15, 25],
     [33, 35, 8, 12, 45, 16, 20, 23, 56, 62, 31],
     [38, 39, 41, 19, 52, 53, 54, 58, 60],
     [64, 61, 63],
     [34, 3, 5, 38, 39, 9, 42, 59, 41, 14, 19, 52, 53, 54, 58, 27, 60, 29],
     [1, 2, 7, 40, 10, 13, 46, 15, 51, 21, 25, 26]
   ]"

definition cpython_iter :: "int list \<Rightarrow> int list" where
  "cpython_iter xs = (case find (\<lambda>l. set l = set xs) cpython_orders of Some l \<Rightarrow> l | None \<Rightarrow> xs)"

text \<open>
  A selection that meets \<open>is_topk\<close> and keeps equal values in the order of their
  positions, and a runtime that uses it.
\<close>

definition topk_stable :: "real list \<Rightarrow> nat \<Rightarrow> nat list" where
  "topk_stable xs k = take k (sort_key (\<lambda>i. - xs ! i) [0..<length xs])"

definition rt_stable :: runtime where
  "rt_stable = \<lparr>set_iter = cpython_iter, topk = topk_stable,
                 format_percent = (\<lambda>x. []), str_int = (\<lambda>i. [])\<rparr>"

text \<open>
  The fields \<open>Higher\<close> (the centre \<open>Head\<close>) and \<open>Mind\<close> (the centres \<open>Head\<close> and \<open>Ajna\<close>)
  as the constructor builds them with this runtime over 64 empty embeddings.
\<close>

definition higher_field :: ConsciousnessField where
  "higher_field = \<lparr>name = ''Higher'',
      config = \<lparr>chart = SIDEREAL, centers = [''Head''],
        awareness_name = Some ''ajna'', modulation = Some ''transcendent''\<rparr>,
      gates = [64, 61, 63], gate_indices = [63, 60, 62], embeddings = [[], [], []]\<rparr>"

definition mind_field :: ConsciousnessField where
  "mind_field = \<lparr>name = ''Mind'',
      config = \<lparr>chart = SIDEREAL, centers = [''Head'', ''Ajna''],
        awareness_name = Some ''ajna'', modulation = Some ''sun_film''\<rparr>,
      gates = [64, 4, 11, 43, 47, 17, 24, 61, 63],
      gate_indices = [63, 3, 10, 42, 46, 16, 23, 60, 62],
      embeddings = [[], [], [], [], [], [], [], [], []]\<rparr>"

text \<open>
  Scores for the 64 gates: gate 47 highest, gates 64 and 17 equal behind it, all gates
  outside \<open>Head\<close> and \<open>Ajna\<close> at one half.
\<close>

definition example_scores :: "real list" where
  "example_scores =
     map (\<lambda>g. if g = 47 then 9 / 10
              else if g = 64 \<or> g = 17 then 6 / 10
              else if g = 63 then 4 / 10
              else if g = 4 then 3 / 10
              else if g = 24 then 2 / 10
              else 1 / 2) [1..64]"


text \<open>
  Views of a dictionary of collapsed states used to state the loop invariants of
  \<open>_compute_resonances\<close>: the resonance stored in \<open>a\<close>'s map under \<open>b\<close>; the relation of two
  dictionaries with the same keys whose states agree on dominant gates and coherence;
  the resonance of the states of two names; one step of the inner loop; and the range
  of the coherences.
\<close>

definition stored_res :: "(string \<times> ConsciousnessState) list \<Rightarrow> string \<Rightarrow> string \<Rightarrow> real option" where
  "stored_res S a b = (case map_of S a of None \<Rightarrow> None | Some s \<Rightarrow> map_of (resonance s) b)"

definition same_core ::
  "(string \<times> ConsciousnessState) list \<Rightarrow> (string \<times> ConsciousnessState) list \<Rightarrow> bool" where
  "same_core S0 S \<longleftrightarrow>
     (\<forall>a. case map_of S0 a of
            None \<Rightarrow> map_of S a = None
          | Some s0 \<Rightarrow> (\<exists>s. map_of S a = Some s \<and> dominant_gates s = dominant_gates s0
                          \<and> coherence s = coherence s0))"

definition pair_res :: "(string \<times> ConsciousnessState) list \<Rightarrow> string \<Rightarrow> string \<Rightarrow> real" where
  "pair_res S a b = resonance_of (the (map_of S a)) (the (map_of S b))"

definition store_pair :: "string \<Rightarrow> string \<Rightarrow> real \<Rightarrow> (string \<times> ConsciousnessState) list \<Rightarrow> (string \<times> ConsciousnessState) list" where
  "store_pair name1 name2 r S = AList.map_entry name2 (store_resonance name1 r)
                        (AList.map_entry name1 (store_resonance name2 r) S)"

definition coh_ok :: "(string \<times> ConsciousnessState) list \<Rightarrow> bool" where
  "coh_ok S \<longleftrightarrow> (\<forall>a s. map_of S a = Some s \<longrightarrow> 0 < coherence s \<and> coherence s \<le> 1)"

text \<open>
  The two fields \<open>Mind\<close> and \<open>Higher\<close>, and their collapsed states for the example scores
  after the resonances are stored.
\<close>

definition two_fields :: "(string \<times> ConsciousnessField) list" where
  "two_fields = [(''Mind'', mind_field), (''Higher'', higher_field)]"

definition mind_state :: ConsciousnessState where
  "mind_state = \<lparr>field_name = ''Mind'', activation = 1 / 2, dominant_gates = [47, 64, 17],
     awareness_type = Some ''ajna'', coherence = 5 / 6, resonance = [(''Higher'', 371 / 660)],
     narrative_seed = ''Mental field activated at , centered in gates , , , coherence high''\<rparr>"

definition higher_state :: ConsciousnessState where
  "higher_state = \<lparr>field_name = ''Higher'', activation = 1 / 2, dominant_gates = [64, 61, 63],
     awareness_type = Some ''ajna'', coherence = 10 / 11, resonance = [(''Mind'', 371 / 660)],
     narrative_seed = ''Higher consciousness at  accessing gates , , , coherence high''\<rparr>"





definition example_net :: QuantumHDNet where
  "example_net = \<lparr>input_proj = (\<lambda>r. []), convs = [], norms = [], film_hidden = (\<lambda>v. []),
     film_out = (\<lambda>v. []), codon_hidden = (\<lambda>r. []), codon_out = (\<lambda>r. 0),
     pool_attention = (\<lambda>n r. 0), awareness_heads = (\<lambda>n v. 0), training = True\<rparr>"

definition example_lib :: "unit torch_lib" where
  "example_lib = \<lparr>randn = (\<lambda>g n. (replicate n 0, g)),
     dropout_mask = (\<lambda>g n. (replicate n True, g)),
     create_model = (\<lambda>g. (example_net, g))\<rparr>"

definition example_engine :: VirtualConsciousnessEngine where
  "example_engine = fst (VirtualConsciousnessEngine_init example_lib [sun11] None ())"

definition tuned_configuration :: ConsciousnessConfiguration where
  "tuned_configuration =
     default_configuration\<lparr>awareness_sensitivity := [(''spleen'', 5), (''ajna'', - 2), (''solar'', 1)]\<rparr>"

definition example_ac :: AdjustableConsciousness where
  "example_ac = \<lparr>natal_placements = [sun11], configuration = tuned_configuration,
     base_engine = example_engine, current_transits = None, current_progressions = None,
     query_history = []\<rparr>"

definition example_response :: VirtualConsciousnessResponse where
  "example_response = \<lparr>question = ''q'', codon_activations = [],
     awareness_scores = [(''spleen'', 1 / 2), (''ajna'', 2 / 5), (''heart'', 3 / 10)],
     field_states = [], narrative_seeds = [], coherence_level = 0,
     observer_context = (None, None)\<rparr>"


text \<open>
  The checks under which \<open>collapse_to_state\<close> returns a state: the gate indices lie in
  the score tensor, the positions from \<open>topk\<close> lie in the gate list, and the field has a
  template.
\<close>

definition collapse_ok :: "runtime \<Rightarrow> ConsciousnessField \<Rightarrow> real list \<Rightarrow> bool" where
  "collapse_ok rt fld cs =
     (case tensor_select cs (gate_indices fld) of
        Inl e \<Rightarrow> False
      | Inr acts \<Rightarrow>
          (case list_select (gates fld) (topk rt acts (min 3 (length (gate_indices fld)))) of
             Inl e \<Rightarrow> False
           | Inr d \<Rightarrow> map_of templates (name fld) \<noteq> None))"

text \<open>The node features of the chart with the body Sun at gate 1, line 1.\<close>

definition sun_features :: "real list list" where
  "sun_features =
     ([1] @ replicate 12 0 @ [1, 0, 0, 0, 0, 0] @ replicate 13 0 @ replicate 32 0)
     # replicate 63 (replicate 64 0)"


section \<open>The channel graph\<close>

lemma channel_loop_inv:
  assumes "distinct edges"
    and "set edges = set seen \<union> (set seen)\<inverse>"
    and "\<forall>(a, b, n) \<in> set cs. a \<noteq> b"
    and "\<forall>(a, b) \<in> set seen. a \<noteq> b"
  shows "distinct (channel_loop cs edges seen) \<and>
         set (channel_loop cs edges seen) =
           set edges \<union> {(a, b). \<exists>n. (a, b, n) \<in> set cs} \<union> {(b, a) |a b. \<exists>n. (a, b, n) \<in> set cs}"
  using assms
proof (induction cs edges seen rule: channel_loop.induct)
  case (1 edges seen)
  then show ?case by simp
next
  case (2 g1 g2 nm cs edges seen)
  have ne: "g1 \<noteq> g2" using "2.prems"(3) by simp
  have rest: "\<forall>(a, b, n) \<in> set cs. a \<noteq> b" using "2.prems"(3) by simp
  show ?case
  proof (cases "(g1, g2) \<notin> set seen \<and> (g2, g1) \<notin> set seen")
    case True
    let ?e = "edges @ [(g1, g2), (g2, g1)]"
    let ?s = "(g1, g2) # seen"
    have notin: "(g1, g2) \<notin> set edges" "(g2, g1) \<notin> set edges"
      using True "2.prems"(2) by auto
    have d: "distinct ?e" using "2.prems"(1) notin ne by simp
    have s: "set ?e = set ?s \<union> (set ?s)\<inverse>" using "2.prems"(2) by auto
    have l: "\<forall>(a, b) \<in> set ?s. a \<noteq> b" using "2.prems"(4) ne by simp
    from "2.IH"(1)[OF True d s rest l] True show ?thesis by auto
  next
    case False
    then have "(g1, g2) \<in> set edges \<and> (g2, g1) \<in> set edges"
      using "2.prems"(2) by auto
    with "2.IH"(2)[OF False "2.prems"(1) "2.prems"(2) rest "2.prems"(4)] False
    show ?thesis by auto
  qed
qed

lemma get_channel_edges_of_sound:
  assumes "\<forall>(a, b, n) \<in> set chans. a \<noteq> b"
  shows "distinct (get_channel_edges_of chans)"
    and "(g1, g2, nm) \<in> set chans \<Longrightarrow>
           (g1, g2) \<in> set (get_channel_edges_of chans) \<and> (g2, g1) \<in> set (get_channel_edges_of chans)"
proof -
  have inv: "distinct (channel_loop chans [] []) \<and>
         set (channel_loop chans [] []) =
           set [] \<union> {(a, b). \<exists>n. (a, b, n) \<in> set chans} \<union> {(b, a) |a b. \<exists>n. (a, b, n) \<in> set chans}"
    by (rule channel_loop_inv) (use assms in simp_all)
  show "distinct (get_channel_edges_of chans)"
    using inv by (simp add: get_channel_edges_of_def)
  show "(g1, g2, nm) \<in> set chans \<Longrightarrow>
           (g1, g2) \<in> set (get_channel_edges_of chans) \<and> (g2, g1) \<in> set (get_channel_edges_of chans)"
    using inv unfolding get_channel_edges_of_def by auto
qed

lemma CHANNELS_no_self_loop: "\<forall>(a, b, n) \<in> set CHANNELS. a \<noteq> b"
  by (simp add: CHANNELS_def)

lemma count_list_distinct_mem: "distinct xs \<Longrightarrow> x \<in> set xs \<Longrightarrow> count_list xs x = 1"
  by (induction xs) auto

text \<open>
  C4. For every channel pair \<open>(g1, g2)\<close> of the static channel table, also one listed
  several times or in both orientations, the edge list built by \<open>get_channel_edges\<close>
  holds the directed edge \<open>(g1, g2)\<close> exactly once and the directed edge \<open>(g2, g1)\<close>
  exactly once, and no edge occurs twice in the list.
\<close>

theorem get_channel_edges_symmetric:
  assumes "(g1, g2, nm) \<in> set CHANNELS"
  shows "count_list get_channel_edges (g1, g2) = 1 \<and>
         count_list get_channel_edges (g2, g1) = 1 \<and>
         distinct get_channel_edges"
proof -
  have d: "distinct get_channel_edges"
    unfolding get_channel_edges_def
    by (rule get_channel_edges_of_sound(1)[OF CHANNELS_no_self_loop])
  have m: "(g1, g2) \<in> set get_channel_edges \<and> (g2, g1) \<in> set get_channel_edges"
    unfolding get_channel_edges_def
    by (rule get_channel_edges_of_sound(2)[OF CHANNELS_no_self_loop assms])
  show ?thesis using d m by (simp add: count_list_distinct_mem)
qed

theorem get_channel_edges_symmetric_witness:
  "(25, 51, ''Initiation'') \<in> set CHANNELS \<and>
   count_list get_channel_edges (25, 51) = 1 \<and>
   count_list get_channel_edges (51, 25) = 1 \<and>
   distinct get_channel_edges"
proof -
  have h: "(25, 51, ''Initiation'') \<in> set CHANNELS" by (simp add: CHANNELS_def)
  show ?thesis using h get_channel_edges_symmetric[OF h] by simp
qed


section \<open>Placements with an unknown planet name\<close>

lemma planet_to_idx_None: "planet_to_idx n = None \<longleftrightarrow> n \<notin> set PLANETS"
proof -
  have "map fst (map (\<lambda>(i, p). (p, i)) (enumerate 0 PLANETS)) = map snd (enumerate 0 PLANETS)"
    by (simp add: case_prod_unfold comp_def)
  then have "fst ` set (map (\<lambda>(i, p). (p, i)) (enumerate 0 PLANETS)) = set PLANETS"
    by (metis list.set_map map_snd_enumerate)
  then show ?thesis
    by (simp add: planet_to_idx_def map_of_eq_None_iff)
qed

lemma num_planets_13: "num_planets = 13"
  by (simp add: num_planets_def PLANETS_def)

lemma encode_gate_loop_unknown:
  "planet_to_idx (planet p) = None \<Longrightarrow>
     encode_gate_loop (ps @ p # qs) pv lv = encode_gate_loop (ps @ qs) pv lv"
  by (induction ps arbitrary: pv lv) (auto split: option.splits sum.splits)

lemma encode_single_unknown:
  assumes "planet_to_idx (planet p) = None"
  shows "encode_gate_placements d [p] = Inr (replicate (d div 2) 0)"
proof -
  have loop: "encode_gate_loop [p] (replicate num_planets 0) (replicate 6 0)
                = Inr (replicate num_planets 0, replicate 6 0)"
    using assms by simp
  have cat: "replicate num_planets (0::real) @ replicate 6 0 = replicate 19 0"
    by (simp add: num_planets_13 replicate_add[symmetric])
  have pad: "take (d div 2) (if int (d div 2) - int (length (replicate 19 (0::real))) > 0
            then replicate 19 (0::real)
                   @ replicate (nat (int (d div 2) - int (length (replicate 19 (0::real))))) 0
            else replicate 19 0) = replicate (d div 2) 0"
    by (auto simp add: replicate_add[symmetric] min_def)
  have "encode_gate_placements d [p] =
          Inr (take (d div 2) (if int (d div 2) - int (length (replicate 19 (0::real))) > 0
            then replicate 19 (0::real)
                   @ replicate (nat (int (d div 2) - int (length (replicate 19 (0::real))))) 0
            else replicate 19 0))"
    unfolding encode_gate_placements_def loop
    by (simp only: cat Let_def list.simps sum.case prod.case sum_list_replicate if_False
          mult_zero_right less_irrefl)
  then show ?thesis by (simp only: pad)
qed

text \<open>
  C3 (as the code has it). A placement whose planet name is not among the known names
  contributes nothing at all to the encoded gate feature, neither to the presence flags
  nor to the line histogram: the encoding of the gate's placements is the encoding of the
  same list without that placement, error results included, so the placement never
  causes an error.
\<close>

theorem encode_gate_placements_unknown_ignored:
  assumes "planet p \<notin> set PLANETS"
  shows "encode_gate_placements d (ps @ p # qs) = encode_gate_placements d (ps @ qs)"
proof -
  have u: "planet_to_idx (planet p) = None" using assms by (simp add: planet_to_idx_None)
  show ?thesis
  proof (cases "ps @ qs = []")
    case True
    then have "ps = []" "qs = []" by simp_all
    then show ?thesis using encode_single_unknown[OF u]
      by (simp add: encode_gate_placements_def)
  next
    case False
    have "encode_gate_loop (ps @ p # qs) (replicate num_planets 0) (replicate 6 0)
            = encode_gate_loop (ps @ qs) (replicate num_planets 0) (replicate 6 0)"
      by (rule encode_gate_loop_unknown[OF u])
    moreover have "ps @ p # qs \<noteq> []" by simp
    ultimately show ?thesis using False
      unfolding encode_gate_placements_def by (simp only: if_False)
  qed
qed

theorem encode_gate_placements_unknown_ignored_witness:
  "planet chiron13 \<notin> set PLANETS \<and>
   encode_gate_placements 64 ([sun11] @ chiron13 # []) = encode_gate_placements 64 ([sun11] @ [])"
proof -
  have h: "planet chiron13 \<notin> set PLANETS" by (simp add: chiron13_def PLANETS_def)
  show ?thesis using h encode_gate_placements_unknown_ignored[OF h, of 64 "[sun11]" "[]"] by simp
qed

text \<open>
  The claim as the specification words it fails: with the Sun on line 1 and a placement of
  unknown name on line 3 at the same gate, the encoder's histogram is all on line 1,
  while the histogram over all placements would put one half on line 3.
\<close>

theorem encode_gate_placements_unknown_line_counterexample:
  "encode_gate_placements 64 [sun11, chiron13]
     = Inr ([1] @ replicate 12 0 @ [1, 0, 0, 0, 0, 0] @ replicate 13 0) \<and>
   line_sub_vector ([1] @ replicate 12 0 @ [1, 0, 0, 0, 0, 0] @ replicate 13 0)
     = [1, 0, 0, 0, 0, 0] \<and>
   line_histogram_spec [sun11, chiron13] = [1 / 2, 0, 1 / 2, 0, 0, 0]"
  by code_simp


section \<open>Field coherence\<close>

lemma std_nonneg: "0 \<le> std xs"
proof (cases "2 \<le> length xs")
  case True
  then have "0 \<le> real (length xs) - 1" by simp
  moreover have "0 \<le> sum_list (map (\<lambda>x. (x - mean xs)\<^sup>2) xs)"
    by (rule sum_list_nonneg) auto
  ultimately show ?thesis by (simp add: std_def)
next
  case False
  then have "length xs = 0 \<or> length xs = 1" by linarith
  then show ?thesis
  proof
    assume "length xs = 0" then show ?thesis by (simp add: std_def)
  next
    assume "length xs = 1"
    then obtain x where "xs = [x]" by (cases xs) auto
    then show ?thesis by (simp add: std_def mean_def)
  qed
qed

text \<open>
  C5. The coherence of a field, computed from its per-gate activations, is
  \<open>1 / (1 + std activations)\<close> when there are at least two activations, exactly 1 when
  there are fewer than two, and always lies in the interval \<open>(0, 1]\<close>. Activations are
  real numbers here and \<open>std\<close> is the sample standard deviation of \<open>torch.std\<close>.
\<close>

theorem compute_coherence_bounds:
  "(2 \<le> length xs \<longrightarrow> compute_coherence xs = 1 / (1 + std xs)) \<and>
   (length xs < 2 \<longrightarrow> compute_coherence xs = 1) \<and>
   0 < compute_coherence xs \<and> compute_coherence xs \<le> 1"
  using std_nonneg[of xs] by (simp add: compute_coherence_def)

lemma std_024: "std [0, 2, 4] = 2"
proof -
  have "std [0, 2, 4] = sqrt (2\<^sup>2)" by (simp add: std_def mean_def)
  then show ?thesis by (simp only: real_sqrt_abs)
qed

theorem compute_coherence_bounds_witness:
  "2 \<le> length [0, 2, 4 :: real] \<and> compute_coherence [0, 2, 4] = 1 / 3 \<and>
   length [5 :: real] < 2 \<and> compute_coherence [5] = 1"
  using compute_coherence_bounds[of "[0, 2, 4]"] compute_coherence_bounds[of "[5]"]
  by (simp add: std_024)


section \<open>Dominant gates\<close>

lemma tensor_select_valid:
  "\<forall>g \<in> set gs. 1 \<le> g \<and> g \<le> int (length t) \<Longrightarrow>
     tensor_select t (map (\<lambda>g. g - 1) gs) = Inr (map (\<lambda>g. t ! nat (g - 1)) gs)"
  by (induction gs) (auto simp add: tensor_index_def)

lemma list_select_valid:
  "\<forall>i \<in> set idx. i < length xs \<Longrightarrow> list_select xs idx = Inr (map (\<lambda>i. xs ! i) idx)"
  by (induction idx) auto

lemma top_gates_of_topk:
  assumes d: "distinct gs"
    and acts: "acts = map (gate_score cs) gs"
    and tk: "is_topk acts (min 3 (length gs)) idx"
  shows "is_top_gates cs gs (map (\<lambda>i. gs ! i) idx)"
proof -
  from tk have len: "length idx = min 3 (length gs)" and di: "distinct idx"
    and bd: "\<forall>i \<in> set idx. i < length gs"
    and srt: "sorted_wrt (\<lambda>i j. acts ! j \<le> acts ! i) idx"
    and rest: "\<forall>j < length gs. j \<notin> set idx \<longrightarrow> (\<forall>i \<in> set idx. acts ! j \<le> acts ! i)"
    by (auto simp add: is_topk_def acts)
  have sc: "\<And>i. i < length gs \<Longrightarrow> acts ! i = gate_score cs (gs ! i)"
    by (simp add: acts)
  have inj: "inj_on (\<lambda>i. gs ! i) (set idx)"
    using d bd by (auto simp add: inj_on_def nth_eq_iff_index_eq)
  have 1: "distinct (map (\<lambda>i. gs ! i) idx)"
    using di inj by (simp add: distinct_map)
  have 2: "set (map (\<lambda>i. gs ! i) idx) \<subseteq> set gs"
    using bd by auto
  have 3: "sorted_wrt (\<lambda>g h. gate_score cs h \<le> gate_score cs g) (map (\<lambda>i. gs ! i) idx)"
    unfolding sorted_wrt_map
    by (rule sorted_wrt_mono_rel[OF _ srt]) (use bd sc in auto)
  have 4: "\<forall>g \<in> set gs. g \<notin> set (map (\<lambda>i. gs ! i) idx) \<longrightarrow>
        (\<forall>dd \<in> set (map (\<lambda>i. gs ! i) idx). gate_score cs g \<le> gate_score cs dd)"
  proof (intro ballI impI)
    fix g dd
    assume g: "g \<in> set gs" and gn: "g \<notin> set (map (\<lambda>i. gs ! i) idx)"
      and dd: "dd \<in> set (map (\<lambda>i. gs ! i) idx)"
    from g obtain j where j: "j < length gs" "gs ! j = g" by (auto simp add: in_set_conv_nth)
    from dd obtain i where i: "i \<in> set idx" "dd = gs ! i" by auto
    have "j \<notin> set idx" using gn j by auto
    with rest j i have "acts ! j \<le> acts ! i" by blast
    then show "gate_score cs g \<le> gate_score cs dd"
      using sc j i bd by auto
  qed
  show ?thesis unfolding is_top_gates_def using len 1 2 3 4 by simp
qed

lemma collapse_dominant:
  assumes "tensor_select cs (gate_indices fld) = Inr acts"
    and "list_select (gates fld) (topk rt acts (min 3 (length (gate_indices fld)))) = Inr d"
    and "map_of templates (name fld) = Some t"
  shows "\<exists>st. collapse_to_state rt fld cs aw = Inr st \<and> dominant_gates st = d"
  using assms
  by (auto simp add: collapse_to_state_def generate_narrative_seed_def Let_def
        split: option.splits sum.splits prod.splits)

lemma higher_field_init:
  "ConsciousnessField_init rt_stable ''Higher'' (replicate 64 []) = Inr higher_field"
  by code_simp

lemma mind_field_init:
  "ConsciousnessField_init rt_stable ''Mind'' (replicate 64 []) = Inr mind_field"
  by code_simp

lemma higher_field_select:
  "tensor_select (replicate 64 (1 / 2 :: real)) (gate_indices higher_field) = Inr [1 / 2, 1 / 2, 1 / 2]"
  by code_simp

lemma higher_field_template:
  "map_of templates (name higher_field) = Some (''Higher consciousness at '', '' accessing gates '')"
  by code_simp

lemma mind_field_wf: "wf_field mind_field (length example_scores)"
  by code_simp

lemma mind_field_scores:
  "map (gate_score example_scores) (gates mind_field)
     = [6 / 10, 3 / 10, 1 / 2, 1 / 2, 9 / 10, 6 / 10, 2 / 10, 1 / 2, 4 / 10]"
  by code_simp

lemma mind_field_k: "min 3 (length (gates mind_field)) = 3"
  by code_simp

lemma mind_field_topk:
  "topk rt_stable [6 / 10, 3 / 10, 1 / 2, 1 / 2, 9 / 10, 6 / 10, 2 / 10, 1 / 2, 4 / 10] 3 = [4, 0, 5]"
  by code_simp

lemma mind_field_is_topk:
  "is_topk [6 / 10, 3 / 10, 1 / 2, 1 / 2, 9 / 10, 6 / 10, 2 / 10, 1 / 2, 4 / 10] 3 [4, 0, 5]"
  by code_simp

lemma mind_field_template:
  "map_of templates (name mind_field) = Some (''Mental field activated at '', '', centered in gates '')"
  by code_simp

lemma mind_field_picked: "map (\<lambda>i. gates mind_field ! i) [4, 0, 5] = [47, 64, 17]"
  by code_simp

text \<open>
  C2 (as the code has it). For every field whose gates are distinct gate numbers within
  the score tensor, in whatever order the gate set is iterated, the dominant gates
  returned by \<open>collapse_to_state\<close> are a top-3 selection by score within the field's
  gates (all of them if the field has fewer than 3): as many as \<open>min 3 n\<close>, distinct,
  in descending order of score, no gate left out scoring higher than a chosen one. They
  are the gates at the positions \<open>topk\<close> returns, in the order it returns them, positions
  counted in the iteration order of the gate set: so gates with equal scores come in the
  order in which \<open>topk\<close> returns their positions, and no order by gate number is imposed.
\<close>

theorem collapse_to_state_dominant_topk:
  assumes wf: "wf_field fld (length codon_scores)"
    and tk: "is_topk (map (gate_score codon_scores) (gates fld)) (min 3 (length (gates fld)))
               (topk rt (map (gate_score codon_scores) (gates fld)) (min 3 (length (gates fld))))"
    and tpl: "map_of templates (name fld) = Some t"
  shows "\<exists>st. collapse_to_state rt fld codon_scores awareness = Inr st \<and>
              is_top_gates codon_scores (gates fld) (dominant_gates st) \<and>
              dominant_gates st =
                map (\<lambda>i. gates fld ! i)
                  (topk rt (map (gate_score codon_scores) (gates fld)) (min 3 (length (gates fld))))"
proof -
  let ?gs = "gates fld"
  let ?k = "min 3 (length ?gs)"
  let ?acts = "map (gate_score codon_scores) ?gs"
  from wf have d: "distinct ?gs" and gi: "gate_indices fld = map (\<lambda>g. g - 1) ?gs"
    and rng: "\<forall>g \<in> set ?gs. 1 \<le> g \<and> g \<le> int (length codon_scores)"
    by (auto simp add: wf_field_def)
  have "map (\<lambda>g. codon_scores ! nat (g - 1)) ?gs = ?acts"
    by (simp add: gate_score_def)
  then have sel: "tensor_select codon_scores (gate_indices fld) = Inr ?acts"
    using tensor_select_valid[OF rng] by (simp add: gi)
  have lk: "min 3 (length (gate_indices fld)) = ?k" by (simp add: gi)
  have bd: "\<forall>i \<in> set (topk rt ?acts ?k). i < length ?gs"
    using tk by (simp add: is_topk_def)
  have ls: "list_select ?gs (topk rt ?acts (min 3 (length (gate_indices fld))))
              = Inr (map (\<lambda>i. ?gs ! i) (topk rt ?acts ?k))"
    unfolding lk by (rule list_select_valid[OF bd])
  from collapse_dominant[OF sel ls tpl]
  obtain st where st: "collapse_to_state rt fld codon_scores awareness = Inr st"
    and dg: "dominant_gates st = map (\<lambda>i. ?gs ! i) (topk rt ?acts ?k)"
    by blast
  have "is_top_gates codon_scores ?gs (dominant_gates st)"
    unfolding dg by (rule top_gates_of_topk[OF d refl tk])
  with st dg show ?thesis by blast
qed

text \<open>
  The field \<open>Mind\<close> (nine gates) with the example scores: gate 47 comes first, and the
  equal gates 64 and 17 follow in the order of their positions, 64 before 17.
\<close>

theorem collapse_to_state_dominant_topk_witness:
  "ConsciousnessField_init rt_stable ''Mind'' (replicate 64 []) = Inr mind_field \<and>
   wf_field mind_field (length example_scores) \<and>
   is_topk (map (gate_score example_scores) (gates mind_field))
     (min 3 (length (gates mind_field)))
     (topk rt_stable (map (gate_score example_scores) (gates mind_field))
        (min 3 (length (gates mind_field)))) \<and>
   map_of templates (name mind_field)
     = Some (''Mental field activated at '', '', centered in gates '') \<and>
   (\<exists>st. collapse_to_state rt_stable mind_field example_scores [] = Inr st \<and>
         is_top_gates example_scores (gates mind_field) (dominant_gates st) \<and>
         dominant_gates st = [47, 64, 17])"
proof -
  have h2: "is_topk (map (gate_score example_scores) (gates mind_field))
     (min 3 (length (gates mind_field)))
     (topk rt_stable (map (gate_score example_scores) (gates mind_field))
        (min 3 (length (gates mind_field))))"
    unfolding mind_field_scores mind_field_k mind_field_topk
    by (rule mind_field_is_topk)
  have pick: "map (\<lambda>i. gates mind_field ! i)
      (topk rt_stable (map (gate_score example_scores) (gates mind_field))
         (min 3 (length (gates mind_field)))) = [47, 64, 17]"
    unfolding mind_field_scores mind_field_k mind_field_topk
    by (rule mind_field_picked)
  show ?thesis
    using mind_field_init mind_field_wf h2 mind_field_template
      collapse_to_state_dominant_topk[OF mind_field_wf h2 mind_field_template, of "[]"]
    unfolding pick by blast
qed

text \<open>
  The tie-break of the claim fails on the field \<open>Higher\<close>, whose gates are iterated as
  64, 61, 63: with all scores equal and a selection that keeps equal values in the order
  of their positions, gate 64 is ranked before the lower-numbered gates 61 and 63.
\<close>

theorem collapse_to_state_tie_break_counterexample:
  "ConsciousnessField_init rt_stable ''Higher'' (replicate 64 []) = Inr higher_field \<and>
   map_sum id dominant_gates
     (collapse_to_state rt_stable higher_field (replicate 64 (1 / 2)) []) = Inr [64, 61, 63] \<and>
   \<not> ties_lowest_first (replicate 64 (1 / 2)) [64, 61, 63]"
proof -
  have ls: "list_select (gates higher_field)
      (topk rt_stable [1 / 2, 1 / 2, 1 / 2] (min 3 (length (gate_indices higher_field))))
        = Inr [64, 61, 63]"
    by code_simp
  from collapse_dominant[OF higher_field_select ls higher_field_template, of "[]"]
  have "map_sum id dominant_gates
     (collapse_to_state rt_stable higher_field (replicate 64 (1 / 2)) []) = Inr [64, 61, 63]"
    by auto
  moreover have "\<not> ties_lowest_first (replicate 64 (1 / 2)) [64, 61, 63]"
    by (simp add: ties_lowest_first_def gate_score_def)
  ultimately show ?thesis using higher_field_init by simp
qed


section \<open>Resonance between fields\<close>

lemma gate_overlap_sym: "gate_overlap x y = gate_overlap y x"
  by (simp add: gate_overlap_def Int_commute Un_commute disj_commute)

lemma resonance_of_sym: "resonance_of s t = resonance_of t s"
  by (simp add: resonance_of_def gate_overlap_sym[of "dominant_gates s"] abs_minus_commute)

lemma resonance_of_cong:
  "dominant_gates s = dominant_gates s' \<Longrightarrow> coherence s = coherence s' \<Longrightarrow>
   dominant_gates t = dominant_gates t' \<Longrightarrow> coherence t = coherence t' \<Longrightarrow>
   resonance_of s t = resonance_of s' t'"
  by (simp add: resonance_of_def)

lemma rv_sym: "pair_res S a b = pair_res S b a"
  by (simp add: pair_res_def resonance_of_sym)

lemma same_core_refl: "same_core S S"
  by (auto simp add: same_core_def split: option.splits)

lemma same_core_keys: "same_core S0 S \<Longrightarrow> (map_of S a = None) = (map_of S0 a = None)"
  unfolding same_core_def
  apply (erule allE[of _ a])
  apply (auto split: option.splits)
  done

lemma same_core_Some:
  "same_core S0 S \<Longrightarrow> map_of S a = Some s \<Longrightarrow>
     \<exists>s0. map_of S0 a = Some s0 \<and> dominant_gates s = dominant_gates s0 \<and> coherence s = coherence s0"
  unfolding same_core_def
  apply (erule allE[of _ a])
  apply (auto split: option.splits)
  done

lemma same_core_rv:
  assumes "same_core S0 S" "map_of S a = Some s" "map_of S b = Some t"
  shows "resonance_of s t = pair_res S0 a b"
proof -
  from same_core_Some[OF assms(1,2)] obtain s0 where s0: "map_of S0 a = Some s0"
    "dominant_gates s = dominant_gates s0" "coherence s = coherence s0"
    by blast
  from same_core_Some[OF assms(1,3)] obtain t0 where t0: "map_of S0 b = Some t0"
    "dominant_gates t = dominant_gates t0" "coherence t = coherence t0"
    by blast
  show ?thesis using s0 t0 by (simp add: pair_res_def resonance_of_def)
qed

lemma map_of_step:
  "map_of (store_pair n1 n2 r S) a =
     (if a = n2 then map_option (store_resonance n1 r)
         (if n2 = n1 then map_option (store_resonance n2 r) (map_of S n1) else map_of S n2)
      else if a = n1 then map_option (store_resonance n2 r) (map_of S n1)
      else map_of S a)"
  by (auto simp add: store_pair_def map_of_map_entry split: option.splits)

lemma step_same_core: "same_core S0 S \<Longrightarrow> same_core S0 (store_pair n1 n2 r S)"
  unfolding same_core_def
  apply (intro allI)
  subgoal for a
    apply (erule allE[of _ a])
    apply (auto simp add: map_of_step store_resonance_def split: option.splits)
    done
  done

lemma res_step:
  assumes "n1 \<noteq> n2" "map_of S n1 \<noteq> None" "map_of S n2 \<noteq> None"
  shows "stored_res (store_pair n1 n2 r S) a b =
     (if (a = n1 \<and> b = n2) \<or> (a = n2 \<and> b = n1) then Some r else stored_res S a b)"
  using assms
  by (auto simp add: stored_res_def map_of_step store_resonance_def update_conv' split: option.splits)

lemma resonance_inner_step:
  "resonance_inner name1 (name2 # rest) S =
     (case map_of S name1 of None \<Rightarrow> Inl KeyError
      | Some s1 \<Rightarrow> (case map_of S name2 of None \<Rightarrow> Inl KeyError
         | Some s2 \<Rightarrow> resonance_inner name1 rest (store_pair name1 name2 (resonance_of s1 s2) S)))"
  by (simp add: store_pair_def Let_def split: option.splits)

lemma inner_inv:
  assumes "map_of S name1 \<noteq> None" "\<forall>n \<in> set rest. map_of S n \<noteq> None"
    "name1 \<notin> set rest" "same_core S0 S"
  shows "\<exists>S'. resonance_inner name1 rest S = Inr S' \<and> same_core S0 S' \<and>
           (\<forall>a b. stored_res S' a b =
              (if (a = name1 \<and> b \<in> set rest) \<or> (b = name1 \<and> a \<in> set rest)
               then Some (pair_res S0 a b) else stored_res S a b))"
  using assms
proof (induction rest arbitrary: S)
  case Nil
  then show ?case by simp
next
  case (Cons name2 rest)
  from Cons.prems obtain s1 s2 where s: "map_of S name1 = Some s1" "map_of S name2 = Some s2"
    by auto
  let ?r = "resonance_of s1 s2"
  let ?S = "store_pair name1 name2 ?r S"
  have ne: "name1 \<noteq> name2" using Cons.prems(3) by auto
  have r: "?r = pair_res S0 name1 name2" using same_core_rv[OF Cons.prems(4) s] .
  have sc: "same_core S0 ?S" by (rule step_same_core[OF Cons.prems(4)])
  have k: "\<And>n. (map_of ?S n = None) = (map_of S n = None)"
    using same_core_keys[OF sc] same_core_keys[OF Cons.prems(4)] by simp
  have p1: "map_of ?S name1 \<noteq> None" using k s by simp
  have p2: "\<forall>n \<in> set rest. map_of ?S n \<noteq> None" using k Cons.prems(2) by simp
  have p3: "name1 \<notin> set rest" using Cons.prems(3) by simp
  from Cons.IH[OF p1 p2 p3 sc] obtain S' where
    S': "resonance_inner name1 rest ?S = Inr S'" "same_core S0 S'"
      "\<forall>a b. stored_res S' a b =
              (if (a = name1 \<and> b \<in> set rest) \<or> (b = name1 \<and> a \<in> set rest)
               then Some (pair_res S0 a b) else stored_res ?S a b)"
    by blast
  have rs: "\<And>a b. stored_res ?S a b =
     (if (a = name1 \<and> b = name2) \<or> (a = name2 \<and> b = name1) then Some ?r else stored_res S a b)"
    using res_step[OF ne] s by simp
  have "resonance_inner name1 (name2 # rest) S = Inr S'"
    using S'(1) s by (simp del: resonance_inner.simps add: resonance_inner_step)
  moreover have "\<forall>a b. stored_res S' a b =
              (if (a = name1 \<and> b \<in> set (name2 # rest)) \<or> (b = name1 \<and> a \<in> set (name2 # rest))
               then Some (pair_res S0 a b) else stored_res S a b)"
    using S'(3) rs r rv_sym[of S0 name1 name2] by auto
  ultimately show ?case using S'(2) by blast
qed

lemma outer_inv:
  assumes "\<forall>n \<in> set names. map_of S n \<noteq> None" "distinct names" "same_core S0 S"
  shows "\<exists>S'. resonance_outer names S = Inr S' \<and> same_core S0 S' \<and>
           (\<forall>a b. stored_res S' a b =
              (if a \<in> set names \<and> b \<in> set names \<and> a \<noteq> b
               then Some (pair_res S0 a b) else stored_res S a b))"
  using assms
proof (induction names arbitrary: S)
  case Nil
  then show ?case by simp
next
  case (Cons name1 rest)
  have q1: "map_of S name1 \<noteq> None" and q2: "\<forall>n \<in> set rest. map_of S n \<noteq> None"
    and q3: "name1 \<notin> set rest"
    using Cons.prems by auto
  from inner_inv[OF q1 q2 q3 Cons.prems(3)] obtain S1 where
    S1: "resonance_inner name1 rest S = Inr S1" "same_core S0 S1"
      "\<forall>a b. stored_res S1 a b =
              (if (a = name1 \<and> b \<in> set rest) \<or> (b = name1 \<and> a \<in> set rest)
               then Some (pair_res S0 a b) else stored_res S a b)"
    by blast
  have k: "\<And>n. (map_of S1 n = None) = (map_of S n = None)"
    using same_core_keys[OF S1(2)] same_core_keys[OF Cons.prems(3)] by simp
  have p1: "\<forall>n \<in> set rest. map_of S1 n \<noteq> None" using k q2 by simp
  have p2: "distinct rest" using Cons.prems(2) by simp
  from Cons.IH[OF p1 p2 S1(2)] obtain S' where
    S': "resonance_outer rest S1 = Inr S'" "same_core S0 S'"
      "\<forall>a b. stored_res S' a b =
              (if a \<in> set rest \<and> b \<in> set rest \<and> a \<noteq> b
               then Some (pair_res S0 a b) else stored_res S1 a b)"
    by blast
  have "resonance_outer (name1 # rest) S = Inr S'" using S1(1) S'(1) by simp
  moreover have "\<forall>a b. stored_res S' a b =
              (if a \<in> set (name1 # rest) \<and> b \<in> set (name1 # rest) \<and> a \<noteq> b
               then Some (pair_res S0 a b) else stored_res S a b)"
    using S'(3) S1(3) q3 by auto
  ultimately show ?case using S'(2) by blast
qed

lemma compute_coherence_range: "0 < compute_coherence xs \<and> compute_coherence xs \<le> 1"
  using std_nonneg[of xs] by (simp add: compute_coherence_def)

lemma collapse_to_state_coherence:
  "collapse_to_state rt fld cs aw = Inr st \<Longrightarrow> 0 < coherence st \<and> coherence st \<le> 1"
  using compute_coherence_range
  by (auto simp add: collapse_to_state_def Let_def split: sum.splits)

lemma collapse_fields_inv:
  "collapse_fields rt flds cs aw acc = Inr S \<Longrightarrow> distinct (map fst acc) \<Longrightarrow> coh_ok acc \<Longrightarrow>
     distinct (map fst S) \<and> coh_ok S"
proof (induction flds arbitrary: acc)
  case Nil
  then show ?case by simp
next
  case (Cons f flds)
  obtain fname fld where f: "f = (fname, fld)" by (cases f)
  from Cons.prems(1) obtain st where st: "collapse_to_state rt fld cs aw = Inr st"
    and rest: "collapse_fields rt flds cs aw (AList.update fname st acc) = Inr S"
    by (auto simp add: f split: sum.splits)
  have d: "distinct (map fst (AList.update fname st acc))"
    using Cons.prems(2) by (rule distinct_update)
  have c: "coh_ok (AList.update fname st acc)"
    using Cons.prems(3) collapse_to_state_coherence[OF st]
    by (auto simp add: coh_ok_def update_conv')
  show ?case by (rule Cons.IH[OF rest d c])
qed

lemma compute_resonances_inv:
  assumes "distinct (map fst S)"
  shows "\<exists>S'. compute_resonances S = Inr S' \<and> same_core S S' \<and>
           (\<forall>a b. map_of S a \<noteq> None \<and> map_of S b \<noteq> None \<and> a \<noteq> b \<longrightarrow>
                  stored_res S' a b = Some (pair_res S a b))"
proof -
  have k: "\<forall>n \<in> set (map fst S). map_of S n \<noteq> None"
    by (simp add: map_of_eq_None_iff)
  from outer_inv[OF k assms same_core_refl] obtain S' where
    S': "resonance_outer (map fst S) S = Inr S'" "same_core S S'"
      "\<forall>a b. stored_res S' a b =
              (if a \<in> set (map fst S) \<and> b \<in> set (map fst S) \<and> a \<noteq> b
               then Some (pair_res S a b) else stored_res S a b)"
    by blast
  have "\<forall>a b. map_of S a \<noteq> None \<and> map_of S b \<noteq> None \<and> a \<noteq> b \<longrightarrow>
                  stored_res S' a b = Some (pair_res S a b)"
    using S'(3) by (auto simp add: map_of_eq_None_iff)
  then show ?thesis using S'(1,2) by (auto simp add: compute_resonances_def)
qed

lemma gate_overlap_range: "0 \<le> gate_overlap x y \<and> gate_overlap x y \<le> 1"
proof -
  have "card (set x \<inter> set y) \<le> card (set x \<union> set y)"
    by (rule card_mono) auto
  then have "real (card (set x \<inter> set y)) \<le> real (card (set x \<union> set y))" by simp
  then show ?thesis
    by (auto simp add: gate_overlap_def divide_le_eq_1)
qed

lemma resonance_of_range:
  assumes "0 < coherence s" "coherence s \<le> 1" "0 < coherence t" "coherence t \<le> 1"
  shows "0 \<le> resonance_of s t \<and> resonance_of s t \<le> 1"
proof -
  have "\<bar>coherence s - coherence t\<bar> \<le> 1" "0 \<le> \<bar>coherence s - coherence t\<bar>"
    using assms by auto
  moreover have "0 \<le> gate_overlap (dominant_gates s) (dominant_gates t)"
    "gate_overlap (dominant_gates s) (dominant_gates t) \<le> 1"
    using gate_overlap_range[of "dominant_gates s" "dominant_gates t"] by simp_all
  ultimately have
    "0 \<le> gate_overlap (dominant_gates s) (dominant_gates t) + (1 - \<bar>coherence s - coherence t\<bar>)"
    "gate_overlap (dominant_gates s) (dominant_gates t) + (1 - \<bar>coherence s - coherence t\<bar>) \<le> 2"
    by linarith+
  then show ?thesis
    unfolding resonance_of_def Let_def by simp
qed

lemma gate_overlap_jaccard:
  "gate_overlap x y =
     (if set x = {} \<and> set y = {} then 0
      else real (card (set x \<inter> set y)) / real (card (set x \<union> set y)))"
  by (simp add: gate_overlap_def)

text \<open>
  C6. For any two distinct fields \<open>a\<close> and \<open>b\<close> among the collapsed states of one query,
  the resonance stored in \<open>a\<close>'s map under \<open>b\<close> and the resonance stored in \<open>b\<close>'s map
  under \<open>a\<close> are one and the same number \<open>r\<close>: the mean of the Jaccard overlap of the two
  sets of dominant gates (the size of their intersection over the size of their union,
  and 0 when both sets are empty) and of one minus the distance of the two coherences;
  and \<open>r\<close> lies in \<open>[0, 1]\<close>.
\<close>

theorem resonance_symmetric:
  assumes col: "collapse_all_fields rt flds cs aw = Inr S'"
    and a: "map_of S' a = Some sa" and b: "map_of S' b = Some sb" and ne: "a \<noteq> b"
  shows "\<exists>r. map_of (resonance sa) b = Some r \<and>
             map_of (resonance sb) a = Some r \<and>
             r = ((if set (dominant_gates sa) = {} \<and> set (dominant_gates sb) = {} then 0
                   else real (card (set (dominant_gates sa) \<inter> set (dominant_gates sb)))
                          / real (card (set (dominant_gates sa) \<union> set (dominant_gates sb))))
                  + (1 - \<bar>coherence sa - coherence sb\<bar>)) / 2 \<and>
             0 \<le> r \<and> r \<le> 1"
proof -
  from col obtain S where S: "collapse_fields rt flds cs aw [] = Inr S"
    and cr: "compute_resonances S = Inr S'"
    by (auto simp add: collapse_all_fields_def split: sum.splits)
  have inv: "distinct (map fst S) \<and> coh_ok S"
    by (rule collapse_fields_inv[OF S]) (simp_all add: coh_ok_def)
  from compute_resonances_inv[of S] inv cr have sc: "same_core S S'"
    and rs: "\<forall>a b. map_of S a \<noteq> None \<and> map_of S b \<noteq> None \<and> a \<noteq> b \<longrightarrow>
                  stored_res S' a b = Some (pair_res S a b)"
    by auto
  from same_core_Some[OF sc a] obtain s0 where s0: "map_of S a = Some s0"
    "dominant_gates sa = dominant_gates s0" "coherence sa = coherence s0" by blast
  from same_core_Some[OF sc b] obtain t0 where t0: "map_of S b = Some t0"
    "dominant_gates sb = dominant_gates t0" "coherence sb = coherence t0" by blast
  have r: "resonance_of sa sb = pair_res S a b" by (rule same_core_rv[OF sc a b])
  have "stored_res S' a b = Some (pair_res S a b)" using rs s0 t0 ne by simp
  then have 1: "map_of (resonance sa) b = Some (resonance_of sa sb)"
    using a r by (simp add: stored_res_def)
  have "stored_res S' b a = Some (pair_res S b a)" using rs s0 t0 ne by simp
  then have 2: "map_of (resonance sb) a = Some (resonance_of sa sb)"
    using b r rv_sym[of S a b] by (simp add: stored_res_def)
  have 3: "resonance_of sa sb =
           ((if set (dominant_gates sa) = {} \<and> set (dominant_gates sb) = {} then 0
             else real (card (set (dominant_gates sa) \<inter> set (dominant_gates sb)))
                    / real (card (set (dominant_gates sa) \<union> set (dominant_gates sb))))
            + (1 - \<bar>coherence sa - coherence sb\<bar>)) / 2"
    unfolding resonance_of_def Let_def gate_overlap_jaccard by (rule refl)
  have ca: "0 < coherence sa \<and> coherence sa \<le> 1"
    using inv s0 by (auto simp add: coh_ok_def)
  have cb: "0 < coherence sb \<and> coherence sb \<le> 1"
    using inv t0 by (auto simp add: coh_ok_def)
  have 5: "0 \<le> resonance_of sa sb \<and> resonance_of sa sb \<le> 1"
    using resonance_of_range ca cb by blast
  show ?thesis
    by (rule exI[of _ "resonance_of sa sb"]) (use 1 2 3 5 in blast)
qed

lemma collapse_eval:
  assumes "tensor_select cs (gate_indices fld) = Inr acts"
    and "list_select (gates fld) (topk rt acts (min 3 (length (gate_indices fld)))) = Inr d"
    and "map_of templates (name fld) = Some (pre, mid)"
  shows "collapse_to_state rt fld cs [] =
     Inr \<lparr>field_name = name fld, activation = mean acts, dominant_gates = d,
          awareness_type = awareness_name (config fld), coherence = compute_coherence acts,
          resonance = [],
          narrative_seed = pre @ format_percent rt (mean acts) @ mid
             @ join '', '' (map (str_int rt) d) @ '', coherence ''
             @ (if compute_coherence acts > 0.7 then ''high''
                else if compute_coherence acts > 0.4 then ''moderate'' else ''low'')\<rparr>"
  using assms
  by (auto simp add: collapse_to_state_def generate_narrative_seed_def Let_def
        split: option.splits)

lemma mind_select:
  "tensor_select example_scores (gate_indices mind_field)
     = Inr [6 / 10, 3 / 10, 1 / 2, 1 / 2, 9 / 10, 6 / 10, 2 / 10, 1 / 2, 4 / 10]"
  by code_simp

lemma mind_picked:
  "list_select (gates mind_field)
      (topk rt_stable [6 / 10, 3 / 10, 1 / 2, 1 / 2, 9 / 10, 6 / 10, 2 / 10, 1 / 2, 4 / 10]
         (min 3 (length (gate_indices mind_field)))) = Inr [47, 64, 17]"
  by code_simp

lemma higher_select:
  "tensor_select example_scores (gate_indices higher_field) = Inr [6 / 10, 1 / 2, 4 / 10]"
  by code_simp

lemma higher_picked:
  "list_select (gates higher_field)
      (topk rt_stable [6 / 10, 1 / 2, 4 / 10] (min 3 (length (gate_indices higher_field))))
     = Inr [64, 61, 63]"
  by code_simp

lemma mind_mean: "mean [6 / 10, 3 / 10, 1 / 2, 1 / 2, 9 / 10, 6 / 10, 2 / 10, 1 / 2, 4 / 10] = 1 / 2"
  by (simp add: mean_def)

lemma higher_mean: "mean [6 / 10, 1 / 2, 4 / 10] = 1 / 2"
  by (simp add: mean_def)

lemma mind_std: "std [6 / 10, 3 / 10, 1 / 2, 1 / 2, 9 / 10, 6 / 10, 2 / 10, 1 / 2, 4 / 10] = 1 / 5"
proof -
  have "std [6 / 10, 3 / 10, 1 / 2, 1 / 2, 9 / 10, 6 / 10, 2 / 10, 1 / 2, 4 / 10]
          = sqrt ((1 / 5)\<^sup>2)"
    unfolding std_def mind_mean by (simp add: power2_eq_square)
  then show ?thesis by (simp only: real_sqrt_abs)
qed

lemma higher_std: "std [6 / 10, 1 / 2, 4 / 10] = 1 / 10"
proof -
  have "std [6 / 10, 1 / 2, 4 / 10] = sqrt ((1 / 10)\<^sup>2)"
    unfolding std_def higher_mean by (simp add: power2_eq_square)
  then show ?thesis by (simp only: real_sqrt_abs)
qed

lemma mind_coherence:
  "compute_coherence [6 / 10, 3 / 10, 1 / 2, 1 / 2, 9 / 10, 6 / 10, 2 / 10, 1 / 2, 4 / 10] = 5 / 6"
  unfolding compute_coherence_def mind_std by simp

lemma higher_coherence: "compute_coherence [6 / 10, 1 / 2, 4 / 10] = 10 / 11"
  unfolding compute_coherence_def higher_std by simp

lemma mind_collapse:
  "collapse_to_state rt_stable mind_field example_scores [] = Inr (mind_state\<lparr>resonance := []\<rparr>)"
  unfolding collapse_eval[OF mind_select mind_picked mind_field_template] mind_coherence mind_mean
  by (simp add: mind_state_def mind_field_def rt_stable_def)

lemma higher_collapse:
  "collapse_to_state rt_stable higher_field example_scores [] = Inr (higher_state\<lparr>resonance := []\<rparr>)"
  unfolding collapse_eval[OF higher_select higher_picked higher_field_template]
    higher_coherence higher_mean
  by (simp add: higher_state_def higher_field_def rt_stable_def)

lemma example_overlap: "gate_overlap [47, 64, 17] [64, 61, 63] = 1 / 5"
  by code_simp

lemma example_resonance: "resonance_of higher_state mind_state = 371 / 660"
  "resonance_of mind_state higher_state = 371 / 660"
  "resonance_of (mind_state\<lparr>resonance := []\<rparr>) (higher_state\<lparr>resonance := []\<rparr>) = 371 / 660"
  using example_overlap gate_overlap_sym[of "[47, 64, 17]" "[64, 61, 63]"]
  by (simp_all add: resonance_of_def mind_state_def higher_state_def)

lemma two_fields_collapse:
  "collapse_all_fields rt_stable two_fields example_scores []
     = Inr [(''Mind'', mind_state), (''Higher'', higher_state)]"
  unfolding collapse_all_fields_def two_fields_def collapse_fields.simps
    mind_collapse higher_collapse
  by (simp add: compute_resonances_def example_resonance store_resonance_def Let_def)
    (simp add: mind_state_def higher_state_def)

text \<open>
  The fields \<open>Mind\<close> and \<open>Higher\<close> with the example scores: the dominant gates share
  gate 64 (overlap one fifth), the coherences are \<open>5 / 6\<close> and \<open>10 / 11\<close>, and both maps
  hold \<open>371 / 660\<close>.
\<close>

theorem resonance_symmetric_witness:
  "collapse_all_fields rt_stable two_fields example_scores []
     = Inr [(''Mind'', mind_state), (''Higher'', higher_state)] \<and>
   map_of [(''Mind'', mind_state), (''Higher'', higher_state)] ''Mind'' = Some mind_state \<and>
   map_of [(''Mind'', mind_state), (''Higher'', higher_state)] ''Higher'' = Some higher_state \<and>
   ''Mind'' \<noteq> ''Higher'' \<and>
   map_of (resonance mind_state) ''Higher'' = Some (371 / 660) \<and>
   map_of (resonance higher_state) ''Mind'' = Some (371 / 660) \<and>
   371 / 660 = ((if set (dominant_gates mind_state) = {} \<and> set (dominant_gates higher_state) = {}
                 then 0
                 else real (card (set (dominant_gates mind_state) \<inter> set (dominant_gates higher_state)))
                        / real (card (set (dominant_gates mind_state)
                                       \<union> set (dominant_gates higher_state))))
                + (1 - \<bar>coherence mind_state - coherence higher_state\<bar>)) / (2 :: real)"
proof -
  have a: "map_of [(''Mind'', mind_state), (''Higher'', higher_state)] ''Mind'' = Some mind_state"
    by simp
  have b: "map_of [(''Mind'', mind_state), (''Higher'', higher_state)] ''Higher'' = Some higher_state"
    by simp
  have ne: "''Mind'' \<noteq> ''Higher''" by simp
  have m: "map_of (resonance mind_state) ''Higher'' = Some (371 / 660)"
    by (simp add: mind_state_def)
  from resonance_symmetric[OF two_fields_collapse a b ne] obtain r where
    r: "map_of (resonance mind_state) ''Higher'' = Some r"
       "map_of (resonance higher_state) ''Mind'' = Some r"
       "r = ((if set (dominant_gates mind_state) = {} \<and> set (dominant_gates higher_state) = {}
                 then 0
                 else real (card (set (dominant_gates mind_state) \<inter> set (dominant_gates higher_state)))
                        / real (card (set (dominant_gates mind_state)
                                       \<union> set (dominant_gates higher_state))))
                + (1 - \<bar>coherence mind_state - coherence higher_state\<bar>)) / 2"
    by blast
  from r(1) m have "r = 371 / 660" by simp
  with r two_fields_collapse a b ne show ?thesis by simp
qed


section \<open>The observer fallback, determinism and the adjustments\<close>


lemma init_eval_mode:
  "\<not> training (quantum_net (fst (VirtualConsciousnessEngine_init lib placements pretrained g)))"
  by (simp add: VirtualConsciousnessEngine_init_def split: prod.splits)






lemma dropout_eval: "dropout lib False xs g = (xs, g)"
  by (simp add: dropout_def)

lemma forward_eval:
  "\<not> training net \<Longrightarrow> forward lib net x ei sc m g = (fst (forward lib net x ei sc m g'), g)"
  by (simp add: forward_def SunFiLM_forward_def dropout_eval Let_def split: sum.splits)

lemma initialize_fields_fst:
  "fst (initialize_fields rt ns emb acc) = fst (initialize_fields rt ns emb acc')"
  by (induction ns arbitrary: acc acc') (auto split: sum.splits)

lemma forward_eval_ex:
  "\<not> training net \<Longrightarrow> \<exists>r. \<forall>g. forward lib net x ei sc m g = (r, g)"
  using forward_eval[of net lib x ei sc m _ undefined] by blast

lemma initialize_state_cases:
  obtains (fail) err P where "initialize_from_quantum_state rt emb X = (Inl err, P)"
  | (ok) F where "initialize_from_quantum_state rt emb X = (Inr (), F)"
  by (cases "initialize_from_quantum_state rt emb X"; cases "fst (initialize_from_quantum_state rt emb X)") auto

lemma initialize_state_fst:
  "fst (initialize_from_quantum_state rt emb X) = fst (initialize_from_quantum_state rt emb Y)"
  unfolding initialize_from_quantum_state_def by (rule initialize_fields_fst)

lemma select_sun_context_frame:
  "select_sun_context (e\<lparr>nine_body := X, consciousness_initialized := b\<rparr>) obs
     = select_sun_context e obs"
  by (simp add: select_sun_context_def split: option.splits)

lemma query_forward_again:
  assumes ev: "\<not> training (quantum_net e)"
  shows "fst (query_forward lib rt (fst (snd (query_forward lib rt e q nf sc g))) q nf sc g')
           = fst (query_forward lib rt e q nf sc g) \<and>
         snd (snd (query_forward lib rt e q nf sc g)) = g \<and>
         (\<exists>X b. fst (snd (query_forward lib rt e q nf sc g))
                  = e\<lparr>nine_body := X, consciousness_initialized := b\<rparr>)"
proof -
  from forward_eval_ex[OF ev] obtain r where
    r: "\<And>g. forward lib (quantum_net e) nf (edge_index e) sc (awareness_masks e) g = (r, g)"
    by blast
  have triv: "\<exists>X b. e = e\<lparr>nine_body := X, consciousness_initialized := b\<rparr>"
    by (rule exI[of _ "nine_body e"], rule exI[of _ "consciousness_initialized e"]) simp
  show ?thesis
  proof (cases r)
    case (Inl err)
    then show ?thesis using r triv by (simp add: query_forward_def)
  next
    case (Inr out)
    show ?thesis
    proof (cases "consciousness_initialized e")
      case True
      then show ?thesis using r Inr triv
        by (auto simp add: query_forward_def split: sum.splits)
    next
      case False
      show ?thesis
      proof (cases rule: initialize_state_cases[of rt "node_embeddings_out out" "nine_body e"])
        case (fail err P)
        have "fst (initialize_from_quantum_state rt (node_embeddings_out out) P) = Inl err"
          using initialize_state_fst[of rt "node_embeddings_out out" P "nine_body e"] fail by simp
        then obtain P' where
          P': "initialize_from_quantum_state rt (node_embeddings_out out) P = (Inl err, P')"
          by (cases "initialize_from_quantum_state rt (node_embeddings_out out) P") auto
        have 1: "query_forward lib rt e q nf sc g = (Inl err, e\<lparr>nine_body := P\<rparr>, g)"
          using r Inr False fail by (simp add: query_forward_def)
        have 2: "fst (query_forward lib rt (e\<lparr>nine_body := P\<rparr>) q nf sc g') = Inl err"
          using r Inr False P' by (simp add: query_forward_def)
        have 3: "e\<lparr>nine_body := P\<rparr> = e\<lparr>nine_body := P, consciousness_initialized := False\<rparr>"
          using False by simp
        have 4: "\<exists>X b. e\<lparr>nine_body := P\<rparr> = e\<lparr>nine_body := X, consciousness_initialized := b\<rparr>"
          using 3 by blast
        show ?thesis unfolding 1 using 2 4 by simp
      next
        case (ok F)
        let ?e = "e\<lparr>nine_body := F, consciousness_initialized := True\<rparr>"
        let ?resp = "\<lambda>states. \<lparr>question = q,
                      codon_activations = map (\<lambda>(i, sc). (int i + 1, sc))
                                            (enumerate 0 (codon_scores_out out)),
                      awareness_scores = awareness_out out,
                      field_states = states,
                      narrative_seeds = synthesize_narrative_seeds states,
                      coherence_level = compute_system_coherence states,
                      observer_context =
                        (map_option gate (body_sun e), map_option line (body_sun e))\<rparr>"
        have 1: "query_forward lib rt e q nf sc g =
           (case collapse_all_fields rt F (codon_scores_out out) (awareness_out out) of
              Inl er \<Rightarrow> (Inl er, ?e, g)
            | Inr states \<Rightarrow> (Inr (?resp states), ?e, g))"
          using r Inr False ok by (simp add: query_forward_def split: sum.splits)
        have 2: "query_forward lib rt ?e q nf sc g' =
           (case collapse_all_fields rt F (codon_scores_out out) (awareness_out out) of
              Inl er \<Rightarrow> (Inl er, ?e, g')
            | Inr states \<Rightarrow> (Inr (?resp states), ?e, g'))"
          using r Inr by (simp add: query_forward_def split: sum.splits)
        have 3: "fst (snd (query_forward lib rt e q nf sc g)) = ?e"
          unfolding 1 by (simp split: sum.splits)
        have 4: "fst (query_forward lib rt ?e q nf sc g') = fst (query_forward lib rt e q nf sc g)"
          unfolding 1 2 by (simp split: sum.splits)
        have 5: "snd (snd (query_forward lib rt e q nf sc g)) = g"
          unfolding 1 by (simp split: sum.splits)
        have 6: "\<exists>X b. ?e = e\<lparr>nine_body := X, consciousness_initialized := b\<rparr>" by blast
        show ?thesis unfolding 3 using 4 5 6 by simp
      qed
    qed
  qed
qed

lemma query_forward_rng_free:
  assumes ev: "\<not> training (quantum_net e)"
  shows "fst (query_forward lib rt e q nf sc g) = fst (query_forward lib rt e q nf sc g')"
proof -
  from forward_eval_ex[OF ev] obtain r where
    r: "\<And>g. forward lib (quantum_net e) nf (edge_index e) sc (awareness_masks e) g = (r, g)"
    by blast
  show ?thesis
    by (simp add: query_forward_def r split: sum.splits prod.splits)
qed

lemma query_again:
  assumes ev: "\<not> training (quantum_net e)"
  shows "fst (query lib rt (fst (snd (query lib rt e q obs False g))) q obs False g')
           = fst (query lib rt e q obs False g'') \<and>
         \<not> training (quantum_net (fst (snd (query lib rt e q obs False g)))) \<and>
         snd (snd (query lib rt e q obs False g)) = g"
proof (cases "encode_placements (embedding_dim (encoder e)) (birth_placements e)")
  case (Inl err)
  then show ?thesis using ev by (simp add: query_def)
next
  case (Inr nf)
  show ?thesis
  proof (cases "select_sun_context e obs")
    case (Inl err)
    then show ?thesis using Inr ev by (simp add: query_def)
  next
    case sc: (Inr sc)
    have q1: "\<And>g. query lib rt e q obs False g = query_forward lib rt e q nf sc g"
      using Inr sc by (simp add: query_def)
    from query_forward_again[OF ev, of lib rt q nf sc g g']
    obtain X b where
      a: "fst (query_forward lib rt (fst (snd (query_forward lib rt e q nf sc g))) q nf sc g')
           = fst (query_forward lib rt e q nf sc g)"
      and gg: "snd (snd (query_forward lib rt e q nf sc g)) = g"
      and st: "fst (snd (query_forward lib rt e q nf sc g))
                  = e\<lparr>nine_body := X, consciousness_initialized := b\<rparr>"
      by blast
    let ?e1 = "fst (snd (query_forward lib rt e q nf sc g))"
    have e1: "encode_placements (embedding_dim (encoder ?e1)) (birth_placements ?e1) = Inr nf"
      unfolding st using Inr by simp
    have s1: "select_sun_context ?e1 obs = Inr sc"
      unfolding st using sc by (simp only: select_sun_context_frame)
    have t1: "\<not> training (quantum_net ?e1)" unfolding st using ev by simp
    have q2: "query lib rt ?e1 q obs False g' = query_forward lib rt ?e1 q nf sc g'"
      using e1 s1 by (simp add: query_def)
    have "fst (query_forward lib rt e q nf sc g) = fst (query_forward lib rt e q nf sc g'')"
      by (rule query_forward_rng_free[OF ev])
    then show ?thesis unfolding q1 q2 using a t1 gg by simp
  qed
qed



lemma adjust_scores_loop_lookup:
  "distinct (map fst xs) \<Longrightarrow>
     map_of (adjust_scores_loop sens xs acc) k =
       (case map_of xs k of Some s \<Rightarrow> Some (adjust_score sens k s) | None \<Rightarrow> map_of acc k)"
proof (induction xs arbitrary: acc)
  case Nil
  then show ?case by simp
next
  case (Cons x xs)
  obtain n s where x: "x = (n, s)" by (cases x)
  have d: "distinct (map fst xs)" and nin: "n \<notin> fst ` set xs" using Cons.prems x by auto
  have none: "map_of xs n = None" using nin by (simp add: map_of_eq_None_iff)
  show ?case
    using Cons.IH[OF d, of "AList.update n (adjust_score sens n s) acc"] none
    by (auto simp add: x update_conv' split: option.splits)
qed

text \<open>
  C8. For every awareness-system score \<open>s\<close> in a response: if the system has a
  configured sensitivity factor \<open>f\<close>, of any magnitude or sign, the adjusted score is
  \<open>min 1 (max 0 (s * f))\<close>, which lies in \<open>[0, 1]\<close>; if it has none, the score is kept.
\<close>

theorem awareness_adjustment_clamped:
  assumes d: "distinct (map fst (awareness_scores response))"
    and s: "map_of (awareness_scores response) system = Some s"
  shows "(\<forall>f. map_of (awareness_sensitivity (configuration ac)) system = Some f \<longrightarrow>
            map_of (awareness_scores (apply_awareness_adjustments ac response)) system
              = Some (min 1 (max 0 (s * f))) \<and>
            0 \<le> min 1 (max 0 (s * f)) \<and> min 1 (max 0 (s * f)) \<le> 1) \<and>
         (map_of (awareness_sensitivity (configuration ac)) system = None \<longrightarrow>
            map_of (awareness_scores (apply_awareness_adjustments ac response)) system = Some s)"
  using adjust_scores_loop_lookup[OF d, of "awareness_sensitivity (configuration ac)" "[]" system] s
  by (auto simp add: apply_awareness_adjustments_def adjust_score_def)

theorem awareness_adjustment_clamped_witness:
  "distinct (map fst (awareness_scores example_response)) \<and>
   map_of (awareness_scores example_response) ''spleen'' = Some (1 / 2) \<and>
   map_of (awareness_sensitivity (configuration example_ac)) ''spleen'' = Some 5 \<and>
   map_of (awareness_scores (apply_awareness_adjustments example_ac example_response)) ''spleen''
     = Some 1 \<and>
   map_of (awareness_scores example_response) ''ajna'' = Some (2 / 5) \<and>
   map_of (awareness_sensitivity (configuration example_ac)) ''ajna'' = Some (- 2) \<and>
   map_of (awareness_scores (apply_awareness_adjustments example_ac example_response)) ''ajna''
     = Some 0 \<and>
   map_of (awareness_scores example_response) ''heart'' = Some (3 / 10) \<and>
   map_of (awareness_sensitivity (configuration example_ac)) ''heart'' = None \<and>
   map_of (awareness_scores (apply_awareness_adjustments example_ac example_response)) ''heart''
     = Some (3 / 10)"
proof -
  have d: "distinct (map fst (awareness_scores example_response))"
    by (simp add: example_response_def)
  have s1: "map_of (awareness_scores example_response) ''spleen'' = Some (1 / 2)"
    by (simp add: example_response_def)
  have s2: "map_of (awareness_scores example_response) ''ajna'' = Some (2 / 5)"
    by (simp add: example_response_def)
  have s3: "map_of (awareness_scores example_response) ''heart'' = Some (3 / 10)"
    by (simp add: example_response_def)
  have f1: "map_of (awareness_sensitivity (configuration example_ac)) ''spleen'' = Some 5"
    by (simp add: example_ac_def tuned_configuration_def)
  have f2: "map_of (awareness_sensitivity (configuration example_ac)) ''ajna'' = Some (- 2)"
    by (simp add: example_ac_def tuned_configuration_def)
  have f3: "map_of (awareness_sensitivity (configuration example_ac)) ''heart'' = None"
    by (simp add: example_ac_def tuned_configuration_def)
  show ?thesis
    using d s1 s2 s3 f1 f2 f3 awareness_adjustment_clamped[OF d s1, of example_ac] awareness_adjustment_clamped[OF d s2, of example_ac]
      awareness_adjustment_clamped[OF d s3, of example_ac]
    by simp
qed

lemma finish_query_rng: "snd (snd (finish_query ac q r)) = snd (snd r)"
  by (cases r) (auto simp add: finish_query_def Let_def split: sum.splits)

text \<open>
  C10. In the query of the adjustable consciousness the argument \<open>intention_strength\<close>
  acts only through the test \<open>intention_strength > 0\<close>: any two strictly positive values
  give the same result, state and generator state, namely those of the query of the
  temporary engine with the intention perturbation switched on, whatever the value; a
  value that is not positive gives
  the query of the temporary engine with the intention perturbation switched off, and
  the generator's state after the call is the one the construction of the temporary
  engine left, no perturbation being drawn.
\<close>

theorem intention_strength_only_sign:
  "(0 < s1 \<and> 0 < s2 \<longrightarrow>
      adjustable_query lib rt ac q ut up s1 g = adjustable_query lib rt ac q ut up s2 g \<and>
      adjustable_query lib rt ac q ut up s1 g
        = (case VirtualConsciousnessEngine_init lib
                  (build_composite_placements ac (ut \<and> current_transits ac \<noteq> None)
                     (up \<and> current_progressions ac \<noteq> None)) None g of
             (temp_engine, g1) \<Rightarrow> finish_query ac q (query lib rt temp_engine q None True g1))) \<and>
   (s \<le> 0 \<longrightarrow>
      adjustable_query lib rt ac q ut up s g
        = (case VirtualConsciousnessEngine_init lib
                  (build_composite_placements ac (ut \<and> current_transits ac \<noteq> None)
                     (up \<and> current_progressions ac \<noteq> None)) None g of
             (temp_engine, g1) \<Rightarrow> finish_query ac q (query lib rt temp_engine q None False g1)) \<and>
      snd (snd (adjustable_query lib rt ac q ut up s g))
        = snd (VirtualConsciousnessEngine_init lib
                 (build_composite_placements ac (ut \<and> current_transits ac \<noteq> None)
                    (up \<and> current_progressions ac \<noteq> None)) None g))"
proof -
  define pl where "pl = build_composite_placements ac (ut \<and> current_transits ac \<noteq> None)
                    (up \<and> current_progressions ac \<noteq> None)"
  obtain temp g1 where i: "VirtualConsciousnessEngine_init lib pl None g = (temp, g1)"
    by (cases "VirtualConsciousnessEngine_init lib pl None g")
  have "\<not> training (quantum_net (fst (VirtualConsciousnessEngine_init lib pl None g)))"
    by (rule init_eval_mode)
  then have ev: "\<not> training (quantum_net temp)" by (simp add: i)
  have rng: "snd (snd (query lib rt temp q None False g1)) = g1"
    by (rule conjunct2[OF conjunct2[OF query_again[OF ev]]])
  have unf: "\<And>x. adjustable_query lib rt ac q ut up x g
               = finish_query ac q (query lib rt temp q None (0 < x) g1)"
    unfolding adjustable_query_def Let_def pl_def[symmetric] i by simp
  have 1: "0 < s1 \<and> 0 < s2 \<longrightarrow>
      adjustable_query lib rt ac q ut up s1 g = adjustable_query lib rt ac q ut up s2 g \<and>
      adjustable_query lib rt ac q ut up s1 g
        = (case VirtualConsciousnessEngine_init lib pl None g of
             (temp_engine, g1) \<Rightarrow> finish_query ac q (query lib rt temp_engine q None True g1))"
    by (simp add: unf i)
  have 2: "s \<le> 0 \<longrightarrow> adjustable_query lib rt ac q ut up s g
        = (case VirtualConsciousnessEngine_init lib pl None g of
             (temp_engine, g1) \<Rightarrow> finish_query ac q (query lib rt temp_engine q None False g1))"
    by (simp add: unf i)
  have 3: "s \<le> 0 \<longrightarrow> snd (snd (adjustable_query lib rt ac q ut up s g))
             = snd (VirtualConsciousnessEngine_init lib pl None g)"
    using rng by (simp add: unf i finish_query_rng)
  show ?thesis using 1 2 3 unfolding pl_def by blast
qed

theorem intention_strength_only_sign_witness:
  "(0 :: real) < 1 \<and> (0 :: real) < 2 \<and>
   adjustable_query example_lib rt_stable example_ac ''q'' True True 1 ()
     = adjustable_query example_lib rt_stable example_ac ''q'' True True 2 () \<and>
   (- 1 :: real) \<le> 0 \<and>
   adjustable_query example_lib rt_stable example_ac ''q'' True True (- 1) ()
     = (case VirtualConsciousnessEngine_init example_lib
                  (build_composite_placements example_ac (True \<and> current_transits example_ac \<noteq> None)
                     (True \<and> current_progressions example_ac \<noteq> None)) None () of
             (temp_engine, g1) \<Rightarrow>
               finish_query example_ac ''q'' (query example_lib rt_stable temp_engine ''q'' None False g1))"
  using intention_strength_only_sign[where ?s1.0 = 1 and ?s2.0 = 2 and s = "- 1" and lib = example_lib and rt = rt_stable
      and ac = example_ac and q = "''q''" and ut = True and up = True and g = "()"]
  by simp


section \<open>A worked example, and the sweep over configurations\<close>

lemma sun_features_encoded: "encode_placements 64 [sun11] = Inr sun_features"
  by code_simp

lemma collapse_ok_succeeds:
  "collapse_ok rt fld cs \<Longrightarrow> \<exists>st. collapse_to_state rt fld cs aw = Inr st"
  unfolding collapse_ok_def
  by (auto split: sum.splits dest: collapse_dominant)

lemma collapse_fields_succeeds:
  "list_all (\<lambda>(n, f). collapse_ok rt f cs) flds \<Longrightarrow>
     \<exists>S. collapse_fields rt flds cs aw acc = Inr S"
proof (induction flds arbitrary: acc)
  case Nil
  then show ?case by simp
next
  case (Cons x flds)
  obtain n f where x: "x = (n, f)" by (cases x)
  from Cons.prems have ok: "collapse_ok rt f cs"
    and rest: "list_all (\<lambda>(n, f). collapse_ok rt f cs) flds" by (simp_all add: x)
  from collapse_ok_succeeds[OF ok] obtain st where st: "collapse_to_state rt f cs aw = Inr st"
    by blast
  from Cons.IH[OF rest] show ?case by (simp add: x st)
qed

lemma collapse_all_fields_succeeds:
  assumes "list_all (\<lambda>(n, f). collapse_ok rt f cs) flds"
  shows "\<exists>S. collapse_all_fields rt flds cs aw = Inr S"
proof -
  from collapse_fields_succeeds[OF assms] obtain S where
    S: "collapse_fields rt flds cs aw [] = Inr S" by blast
  have "distinct (map fst S)"
    using collapse_fields_inv[OF S] by (simp add: coh_ok_def)
  from compute_resonances_inv[OF this] obtain S' where "compute_resonances S = Inr S'" by blast
  then show ?thesis by (simp add: collapse_all_fields_def S)
qed

lemma pool_all_succeeds:
  "\<forall>n \<in> set ns. map_of masks n \<noteq> None \<Longrightarrow> \<exists>vecs. pool_all net h masks ns = Inr vecs"
  by (induction ns) (auto split: option.splits)

lemma masks_present: "\<forall>n \<in> set pool_names. map_of get_awareness_masks n \<noteq> None"
proof -
  have "list_all (\<lambda>n. map_of get_awareness_masks n \<noteq> None) pool_names" by code_simp
  then show ?thesis by (simp add: list_all_iff)
qed

lemma sigmoid_0: "sigmoid 0 = 1 / 2"
  by (simp add: sigmoid_def)

lemma example_forward:
  assumes "length x = 64"
  shows "\<exists>out. forward example_lib (example_net\<lparr>training := False\<rparr>) x ei sc get_awareness_masks ()
            = (Inr out, ()) \<and>
          codon_scores_out out = replicate 64 (1 / 2) \<and>
          node_embeddings_out out = replicate 64 []"
proof -
  have m: "\<And>c. map (\<lambda>row. c) x = replicate 64 c"
    using assms by (simp add: map_replicate_const)
  from pool_all_succeeds[OF masks_present] obtain vecs where
    v: "pool_all (example_net\<lparr>training := False\<rparr>) (replicate 64 []) get_awareness_masks pool_names
          = Inr vecs" by blast
  show ?thesis
    by (simp add: forward_def SunFiLM_forward_def dropout_def example_net_def relu_def m
          sigmoid_0 Let_def v[unfolded example_net_def, simplified])
qed

lemma example_init_ok:
  "fst (initialize_from_quantum_state rt_stable (replicate 64 []) []) = Inr ()"
  by code_simp

lemma example_fields_ok:
  "list_all (\<lambda>(n, f). collapse_ok rt_stable f (replicate 64 (1 / 2)))
     (snd (initialize_from_quantum_state rt_stable (replicate 64 []) []))"
  by code_simp

lemma example_perturbation:
  "\<exists>p. create_intention_perturbation example_lib q [sun11] () = (Inr p, ()) \<and> length p = 64"
  by (simp add: create_intention_perturbation_def example_lib_def QuantumFieldEncoder_init_def
        sun_features_encoded sun_features_def Let_def)

lemma example_engine_parts:
  "VirtualConsciousnessEngine_init example_lib pl None () = (e, u) \<Longrightarrow>
     birth_placements e = pl \<and> embedding_dim (encoder e) = 64 \<and>
     quantum_net e = example_net\<lparr>training := False\<rparr> \<and>
     awareness_masks e = get_awareness_masks \<and> nine_body e = [] \<and>
     \<not> consciousness_initialized e \<and> body_sun e = find_body_sun pl"
  by (auto simp add: VirtualConsciousnessEngine_init_def QuantumFieldEncoder_init_def
        example_lib_def split: prod.splits)

lemma example_query_forward:
  assumes e: "quantum_net e = example_net\<lparr>training := False\<rparr>"
      "awareness_masks e = get_awareness_masks" "nine_body e = []"
      "\<not> consciousness_initialized e"
    and x: "length x = 64"
  shows "\<not> isl (fst (query_forward example_lib rt_stable e q x sc ()))"
proof -
  from example_forward[OF x, of "edge_index e" sc] obtain out where
    f: "forward example_lib (example_net\<lparr>training := False\<rparr>) x (edge_index e) sc
          get_awareness_masks () = (Inr out, ())"
    and cs: "codon_scores_out out = replicate 64 (1 / 2)"
    and ne: "node_embeddings_out out = replicate 64 []"
    by blast
  obtain F where i: "initialize_from_quantum_state rt_stable (replicate 64 []) [] = (Inr (), F)"
    using example_init_ok
    by (cases "initialize_from_quantum_state rt_stable (replicate 64 []) []") auto
  have ok: "list_all (\<lambda>(n, f). collapse_ok rt_stable f (replicate 64 (1 / 2))) F"
    using example_fields_ok by (simp add: i)
  from collapse_all_fields_succeeds[OF ok, of "awareness_out out"] obtain S where
    S: "collapse_all_fields rt_stable F (replicate 64 (1 / 2)) (awareness_out out) = Inr S"
    by blast
  show ?thesis
    by (simp add: query_forward_def e f cs ne i S)
qed

lemma sun11_context: "\<not> isl (encode_sun_context sun11)"
  by code_simp

lemma find_sun11: "find_body_sun [sun11] = Some sun11"
  by (simp add: find_body_sun_def sun11_def)

lemma example_query:
  assumes "VirtualConsciousnessEngine_init example_lib [sun11] None () = (e, u)"
  shows "\<not> isl (fst (query example_lib rt_stable e q None True ()))"
proof -
  from example_engine_parts[OF assms] have p: "birth_placements e = [sun11]"
    "embedding_dim (encoder e) = 64" "quantum_net e = example_net\<lparr>training := False\<rparr>"
    "awareness_masks e = get_awareness_masks" "nine_body e = []"
    "\<not> consciousness_initialized e" "body_sun e = find_body_sun [sun11]" by simp_all
  from example_perturbation[of q] obtain pt where
    pt: "create_intention_perturbation example_lib q [sun11] () = (Inr pt, ())" "length pt = 64"
    by blast
  obtain v where v: "select_sun_context e None = Inr v"
    using sun11_context
    by (cases "encode_sun_context sun11") (simp_all add: select_sun_context_def p(7) find_sun11)
  have len: "length (map2 (\<lambda>row p. map (\<lambda>x. x + p * 0.1) row) sun_features pt) = 64"
    using pt(2) by (simp add: sun_features_def)
  show ?thesis
    using example_query_forward[OF p(3,4,5,6) len, of q v]
    by (simp add: query_def p(1,2) sun_features_encoded pt(1) v)
qed

lemma example_adjustable_query:
  assumes "natal_placements ac = [sun11]" "current_transits ac = None"
    "current_progressions ac = None"
  shows "\<exists>resp ac'. adjustable_query example_lib rt_stable ac q True True 1 () = (Inr resp, ac', ()) \<and>
           natal_placements ac' = [sun11] \<and> current_transits ac' = None \<and>
           current_progressions ac' = None \<and> configuration ac' = configuration ac"
proof -
  have pl: "build_composite_placements ac (True \<and> current_transits ac \<noteq> None)
              (True \<and> current_progressions ac \<noteq> None) = [sun11]"
    using assms by (simp add: build_composite_placements_def)
  obtain e u where i: "VirtualConsciousnessEngine_init example_lib [sun11] None () = (e, u)"
    by (cases "VirtualConsciousnessEngine_init example_lib [sun11] None ()")
  from example_query[OF i, of q] obtain resp e' where
    r: "query example_lib rt_stable e q None True () = (Inr resp, e', ())"
    by (cases "query example_lib rt_stable e q None True ()";
        cases "fst (query example_lib rt_stable e q None True ())") auto
  have "adjustable_query example_lib rt_stable ac q True True 1 ()
          = finish_query ac q (query example_lib rt_stable e q None True ())"
    unfolding adjustable_query_def Let_def pl i by simp
  then show ?thesis
    using assms by (simp add: r finish_query_def Let_def)
qed

lemma example_compare_loop:
  assumes "natal_placements ac = [sun11]" "current_transits ac = None"
    "current_progressions ac = None"
  shows "\<not> isl (fst (compare_loop example_lib rt_stable q cfgs ac results ()))"
  using assms
proof (induction cfgs arbitrary: ac results)
  case Nil
  then show ?case by simp
next
  case (Cons c cfgs)
  obtain i cfg where c: "c = (i, cfg)" by (cases c)
  let ?ac = "ac\<lparr>configuration := cfg\<rparr>"
  have a: "natal_placements ?ac = [sun11]" "current_transits ?ac = None"
    "current_progressions ?ac = None" using Cons.prems by simp_all
  from example_adjustable_query[OF a, of q] obtain resp ac' where
    r: "adjustable_query example_lib rt_stable ?ac q True True 1 () = (Inr resp, ac', ())"
    and k: "natal_placements ac' = [sun11]" "current_transits ac' = None"
      "current_progressions ac' = None"
    by blast
  show ?case using Cons.IH[OF k] by (simp add: c r)
qed



lemma finish_query_history:
  "finish_query ac q r = (Inr resp, ac', g') \<Longrightarrow>
     ac' = ac\<lparr>query_history := query_history ac @ [(q, resp, export_current_config ac)]\<rparr>"
  by (cases r) (auto simp add: finish_query_def Let_def split: sum.splits)

lemma adjustable_query_history:
  "adjustable_query lib rt ac q ut up s g = (Inr resp, ac', g') \<Longrightarrow>
     ac' = ac\<lparr>query_history := query_history ac @ [(q, resp, export_current_config ac)]\<rparr>"
  unfolding adjustable_query_def Let_def
  by (auto split: prod.splits dest: finish_query_history)

lemma export_frame:
  "export_current_config (ac\<lparr>query_history := h, configuration := c\<rparr>)
     = export_current_config (ac\<lparr>configuration := c\<rparr>)"
  by (simp add: export_current_config_def)

lemma compare_loop_history:
  "compare_loop lib rt q cfgs ac results g = (Inr res, ac', g') \<Longrightarrow>
     \<exists>entries. query_history ac' = query_history ac @ entries \<and>
       map (\<lambda>(q, r, x). x) entries
         = map (\<lambda>(i, cfg). export_current_config (ac\<lparr>configuration := cfg\<rparr>)) cfgs \<and>
       natal_placements ac' = natal_placements ac \<and>
       current_transits ac' = current_transits ac \<and>
       current_progressions ac' = current_progressions ac"
proof (induction cfgs arbitrary: ac results g)
  case Nil
  then show ?case by simp
next
  case (Cons c cfgs)
  obtain i cfg where c: "c = (i, cfg)" by (cases c)
  let ?ac = "ac\<lparr>configuration := cfg\<rparr>"
  from Cons.prems obtain resp ac1 g1 where
    r: "adjustable_query lib rt ?ac q True True 1 g = (Inr resp, ac1, g1)"
    and rest: "compare_loop lib rt q cfgs ac1
                 (AList.update (''config_'' @ str_int rt (int i)) resp results) g1 = (Inr res, ac', g')"
    by (auto simp add: c split: prod.splits sum.splits)
  from adjustable_query_history[OF r]
  have ac1: "ac1 = ?ac\<lparr>query_history := query_history ?ac @ [(q, resp, export_current_config ?ac)]\<rparr>" .
  from Cons.IH[OF rest] obtain entries where
    e: "query_history ac' = query_history ac1 @ entries"
       "map (\<lambda>(q, r, x). x) entries
         = map (\<lambda>(i, cfg). export_current_config (ac1\<lparr>configuration := cfg\<rparr>)) cfgs"
       "natal_placements ac' = natal_placements ac1"
       "current_transits ac' = current_transits ac1"
       "current_progressions ac' = current_progressions ac1"
    by blast
  have x: "\<And>cfg'. export_current_config (ac1\<lparr>configuration := cfg'\<rparr>)
              = export_current_config (ac\<lparr>configuration := cfg'\<rparr>)"
    by (simp add: ac1 export_current_config_def)
  have "query_history ac' = query_history ac @ ((q, resp, export_current_config ?ac) # entries)"
    using e(1) by (simp add: ac1)
  moreover have "map (\<lambda>(q, r, x). x) ((q, resp, export_current_config ?ac) # entries)
         = map (\<lambda>(i, cfg). export_current_config (ac\<lparr>configuration := cfg\<rparr>)) (c # cfgs)"
    using e(2) by (simp add: c x)
  moreover have "natal_placements ac' = natal_placements ac"
    "current_transits ac' = current_transits ac"
    "current_progressions ac' = current_progressions ac"
    using e(3,4,5) by (simp_all add: ac1)
  ultimately show ?case by blast
qed

text \<open>
  C9. For every question and every list of configurations, after
  \<open>compare_configurations\<close> returns, the configuration of the object is the one it had
  before the call; and during the sweep each query ran under its own configuration of
  the list, as the configurations recorded in the new entries of the query history show.
\<close>

theorem compare_configurations_restores:
  assumes "\<not> isl (fst (compare_configurations lib rt ac q configs g))"
  shows "configuration (fst (snd (compare_configurations lib rt ac q configs g))) = configuration ac \<and>
         map (\<lambda>(q, r, x). x)
             (drop (length (query_history ac))
                (query_history (fst (snd (compare_configurations lib rt ac q configs g)))))
           = map (\<lambda>cfg. export_current_config (ac\<lparr>configuration := cfg\<rparr>)) configs"
proof -
  obtain r ac1 g1 where l: "compare_loop lib rt q (enumerate 0 configs) ac [] g = (r, ac1, g1)"
    by (cases "compare_loop lib rt q (enumerate 0 configs) ac [] g")
  from assms l obtain res where res: "r = Inr res"
    by (cases r) (simp_all add: compare_configurations_def Let_def)
  have cc: "compare_configurations lib rt ac q configs g
              = (Inr res, ac1\<lparr>configuration := configuration ac\<rparr>, g1)"
    by (simp add: compare_configurations_def Let_def l res)
  from compare_loop_history[OF l[unfolded res]] obtain entries where
    e: "query_history ac1 = query_history ac @ entries"
       "map (\<lambda>(q, r, x). x) entries
         = map (\<lambda>(i, cfg). export_current_config (ac\<lparr>configuration := cfg\<rparr>)) (enumerate 0 configs)"
    by blast
  have "map (\<lambda>(i, cfg). export_current_config (ac\<lparr>configuration := cfg\<rparr>)) (enumerate 0 configs)
          = map (\<lambda>cfg. export_current_config (ac\<lparr>configuration := cfg\<rparr>)) (map snd (enumerate 0 configs))"
    unfolding map_map by (rule map_cong) (auto simp add: comp_def)
  then have "map (\<lambda>(q, r, x). x) entries
          = map (\<lambda>cfg. export_current_config (ac\<lparr>configuration := cfg\<rparr>)) configs"
    using e(2) by (simp only: map_snd_enumerate)
  then show ?thesis by (simp add: cc e(1))
qed

theorem compare_configurations_restores_witness:
  "\<not> isl (fst (compare_configurations example_lib rt_stable example_ac ''q''
               [default_configuration, tuned_configuration] ())) \<and>
   configuration example_ac = tuned_configuration \<and>
   default_configuration \<noteq> tuned_configuration \<and>
   configuration (fst (snd (compare_configurations example_lib rt_stable example_ac ''q''
               [default_configuration, tuned_configuration] ()))) = tuned_configuration \<and>
   map (\<lambda>(q, r, x). x)
       (drop (length (query_history example_ac))
          (query_history (fst (snd (compare_configurations example_lib rt_stable example_ac ''q''
               [default_configuration, tuned_configuration] ())))))
     = [export_current_config (example_ac\<lparr>configuration := default_configuration\<rparr>),
        export_current_config (example_ac\<lparr>configuration := tuned_configuration\<rparr>)]"
proof -
  have a: "natal_placements example_ac = [sun11]" "current_transits example_ac = None"
    "current_progressions example_ac = None" by (simp_all add: example_ac_def)
  have "\<not> isl (fst (compare_loop example_lib rt_stable ''q''
                 (enumerate 0 [default_configuration, tuned_configuration]) example_ac [] ()))"
    by (rule example_compare_loop[OF a])
  then have h: "\<not> isl (fst (compare_configurations example_lib rt_stable example_ac ''q''
               [default_configuration, tuned_configuration] ()))"
    by (auto simp add: compare_configurations_def Let_def split: prod.splits sum.splits)
  have c: "configuration example_ac = tuned_configuration" by (simp add: example_ac_def)
  have d: "default_configuration \<noteq> tuned_configuration"
  proof
    assume "default_configuration = tuned_configuration"
    then have "awareness_sensitivity default_configuration = awareness_sensitivity tuned_configuration"
      by simp
    then show False by (simp add: default_configuration_def tuned_configuration_def)
  qed
  show ?thesis using h compare_configurations_restores[OF h] c d by simp
qed

end
